theory Spec2Isabelle
  imports Main "HOL-Library.Sublist"
begin

section \<open>JavaScript values and strings\<close>

text \<open>
  The service is a single Node.js file, \<^verbatim>\<open>app.js\<close>.  Text is modelled as \<^typ>\<open>string\<close>,
  one \<^typ>\<open>char\<close> per code unit (code units below 256).  The two fields of a request body
  are JSON values; a JSON number is carried as the text that JavaScript's number-to-string
  conversion gives it, so that no floating point is needed.
\<close>

datatype json =
    JNull
  | JBool bool
  | JNum string
  | JStr string
  | JArr "json list"
  | JObj "(string \<times> json) list"

text \<open>A destructured field \<^verbatim>\<open>const { language, code } = req.body\<close> is \<open>None\<close> when the
  key is absent (JavaScript's \<^verbatim>\<open>undefined\<close>).\<close>

type_synonym field = "json option"

text \<open>\<^verbatim>\<open>!x\<close> is true exactly for the falsy values.\<close>

fun truthy :: "field \<Rightarrow> bool" where
  "truthy None = False"
| "truthy (Some JNull) = False"
| "truthy (Some (JBool b)) = b"
| "truthy (Some (JNum t)) = (t \<noteq> ''0'' \<and> t \<noteq> ''NaN'')"
| "truthy (Some (JStr s)) = (s \<noteq> [])"
| "truthy (Some (JArr xs)) = True"
| "truthy (Some (JObj kvs)) = True"

text \<open>\<^verbatim>\<open>typeof x === 'string'\<close>.\<close>

fun is_string :: "field \<Rightarrow> bool" where
  "is_string (Some (JStr s)) = True"
| "is_string _ = False"

text \<open>\<^verbatim>\<open>Array.prototype.join\<close> on strings.\<close>

fun join :: "string \<Rightarrow> string list \<Rightarrow> string" where
  "join sep [] = []"
| "join sep [x] = x"
| "join sep (x # y # ys) = x @ sep @ join sep (y # ys)"

text \<open>
  \<^verbatim>\<open>LANGUAGES[language]\<close> converts the key to a string first.  For a value parsed from JSON:
  a string is itself; an array is its elements' strings joined by commas, \<^verbatim>\<open>null\<close>
  elements giving the empty string; a plain object is \<^verbatim>\<open>[object Object]\<close>, unless it has an
  own \<^verbatim>\<open>toString\<close> property, which (coming from JSON) is not callable and makes the
  conversion throw a \<^verbatim>\<open>TypeError\<close>, here \<open>None\<close>.
\<close>

fun sequence_opt :: "'a option list \<Rightarrow> 'a list option" where
  "sequence_opt [] = Some []"
| "sequence_opt (None # xs) = None"
| "sequence_opt (Some x # xs) = (case sequence_opt xs of None \<Rightarrow> None | Some ys \<Rightarrow> Some (x # ys))"

fun to_string :: "json \<Rightarrow> string option" where
  "to_string JNull = Some ''null''"
| "to_string (JBool b) = Some (if b then ''true'' else ''false'')"
| "to_string (JNum t) = Some t"
| "to_string (JStr s) = Some s"
| "to_string (JArr xs) =
     (case sequence_opt (map (\<lambda>x. if x = JNull then Some [] else to_string x) xs) of
        None \<Rightarrow> None
      | Some ss \<Rightarrow> Some (join '','' ss))"
| "to_string (JObj kvs) =
     (if ''toString'' \<in> set (map fst kvs) then None else Some ''[object Object]'')"

section \<open>Configuration constants and the language catalog\<close>

definition VOLUME_NAME :: string where
  "VOLUME_NAME = ''code_execution_volume''"

definition DOCKER_MEM_LIMIT :: string where
  "DOCKER_MEM_LIMIT = ''256m''"

definition DOCKER_CPU_LIMIT :: string where
  "DOCKER_CPU_LIMIT = ''0.5''"

record lang_config =
  ext :: string
  compileCmd :: string
  dockerImage :: string

text \<open>
  What a property read on the object literal \<^verbatim>\<open>LANGUAGES\<close> gives: one of its five own
  entries, a member inherited from \<^verbatim>\<open>Object.prototype\<close> (a function, or the prototype
  itself for \<^verbatim>\<open>__proto__\<close>; always truthy, and without \<^verbatim>\<open>ext\<close>, \<^verbatim>\<open>compileCmd\<close> or
  \<^verbatim>\<open>dockerImage\<close>), or \<^verbatim>\<open>undefined\<close>.
\<close>

datatype property = Undefined | Inherited | Descriptor lang_config

definition object_prototype_keys :: "string list" where
  "object_prototype_keys =
     [''constructor'', ''__defineGetter__'', ''__defineSetter__'', ''hasOwnProperty'',
      ''__lookupGetter__'', ''__lookupSetter__'', ''isPrototypeOf'', ''propertyIsEnumerable'',
      ''toString'', ''valueOf'', ''__proto__'', ''toLocaleString'']"

definition LANGUAGES :: "string \<Rightarrow> property" where
  "LANGUAGES key =
     (if key = ''c'' then Descriptor
        \<lparr>ext = ''c'', compileCmd = ''gcc {file} -o {output} && {output}'', dockerImage = ''gcc:13''\<rparr>
      else if key = ''cpp'' then Descriptor
        \<lparr>ext = ''cpp'', compileCmd = ''g++ {file} -o {output} && {output}'', dockerImage = ''gcc:13''\<rparr>
      else if key = ''python'' then Descriptor
        \<lparr>ext = ''py'', compileCmd = ''python3 {file}'', dockerImage = ''python''\<rparr>
      else if key = ''java'' then Descriptor
        \<lparr>ext = ''java'', compileCmd = ''javac {file} && java {classname}'',
         dockerImage = ''openjdk:17''\<rparr>
      else if key = ''node'' then Descriptor
        \<lparr>ext = ''js'', compileCmd = ''node {file}'', dockerImage = ''node''\<rparr>
      else if key \<in> set object_prototype_keys then Inherited
      else Undefined)"

text \<open>The five tags of the catalog.\<close>

definition catalog_tags :: "string list" where
  "catalog_tags = [''c'', ''cpp'', ''python'', ''java'', ''node'']"

text \<open>\<^verbatim>\<open>LANGUAGES[language]\<close> for a JSON value; \<open>None\<close> when the key conversion throws.\<close>

definition lookup_language :: "json \<Rightarrow> property option" where
  "lookup_language l = (case to_string l of None \<Rightarrow> None | Some key \<Rightarrow> Some (LANGUAGES key))"

section \<open>The queue and the submission route\<close>

text \<open>
  The job payload \<^verbatim>\<open>{ language, code }\<close>.  The route only enqueues a \<^verbatim>\<open>code\<close> that passed
  \<^verbatim>\<open>typeof code === 'string'\<close>, so the payload's code is a string; the language is whatever
  JSON value passed the route's check.
\<close>

record job_data =
  language :: json
  code :: string

text \<open>
  The broker behind \<^verbatim>\<open>codeQueue.add\<close>: it either stores the payload under a fresh id, or
  the call rejects (broker unreachable).  Ids are the broker's counter.
\<close>

record queue =
  reachable :: bool
  counter :: nat
  jobs :: "(nat \<times> job_data) list"

definition queue_add :: "queue \<Rightarrow> job_data \<Rightarrow> (nat \<times> queue) option" where
  "queue_add q d =
     (if reachable q
      then Some (Suc (counter q), q\<lparr>counter := Suc (counter q), jobs := jobs q @ [(Suc (counter q), d)]\<rparr>)
      else None)"

text \<open>The two fields that the route reads from \<^verbatim>\<open>req.body\<close>, the object \<^verbatim>\<open>express.json()\<close>
  parsed.\<close>

record request_body =
  body_language :: field
  body_code :: field

datatype reply_body = ErrorBody string | JobIdBody nat

text \<open>What the route does with a request: it sends a status and a body, or it throws
  before sending anything.\<close>

datatype reply = Reply nat reply_body | Threw string

fun string_value :: "field \<Rightarrow> string" where
  "string_value (Some (JStr s)) = s"
| "string_value _ = []"

text \<open>\<^verbatim>\<open>app.post('/run', ...)\<close>, returning the reply and the queue afterwards.  The second
  disjunct of \<^verbatim>\<open>!language || !LANGUAGES[language]\<close> is only evaluated for a truthy
  language, hence one that is present.\<close>

definition post_run :: "queue \<Rightarrow> request_body \<Rightarrow> reply \<times> queue" where
  "post_run q b =
     (if \<not> truthy (body_code b) \<or> \<not> is_string (body_code b)
      then (Reply 400 (ErrorBody ''Missing or invalid code field''), q)
      else case body_language b of
        None \<Rightarrow> (Reply 400 (ErrorBody ''Missing or unsupported language''), q)
      | Some l \<Rightarrow>
          if \<not> truthy (Some l)
          then (Reply 400 (ErrorBody ''Missing or unsupported language''), q)
          else case lookup_language l of
             None \<Rightarrow> (Threw ''Cannot convert object to primitive value'', q)
           | Some Undefined \<Rightarrow> (Reply 400 (ErrorBody ''Missing or unsupported language''), q)
           | Some _ \<Rightarrow>
               (case queue_add q \<lparr>language = l, code = string_value (body_code b)\<rparr> of
                  Some (jid, q') \<Rightarrow> (Reply 202 (JobIdBody jid), q')
                | None \<Rightarrow> (Reply 500 (ErrorBody ''Failed to queue execution job''), q)))"

section \<open>The Java class name\<close>

text \<open>
  \<^verbatim>\<open>code.match(/public\s+class\s+([A-Za-z_][A-Za-z0-9_]*)/)\<close>.  The character classes, on
  code units: \<^verbatim>\<open>\s\<close> is TAB, LF, VT, FF, CR, space and the no-break space; a class-name
  character is a letter, a digit or the underscore.
\<close>

definition is_space :: "char \<Rightarrow> bool" where
  "is_space c = (of_char c \<in> {9, 10, 11, 12, 13, 32, 160 :: nat})"

definition is_id_start :: "char \<Rightarrow> bool" where
  "is_id_start c =
     (let n = of_char c :: nat in (65 \<le> n \<and> n \<le> 90) \<or> (97 \<le> n \<and> n \<le> 122) \<or> n = 95)"

definition is_id_char :: "char \<Rightarrow> bool" where
  "is_id_char c = (is_id_start c \<or> (let n = of_char c :: nat in 48 \<le> n \<and> n \<le> 57))"

definition strip_prefix :: "string \<Rightarrow> string \<Rightarrow> string option" where
  "strip_prefix p s = (if prefix p s then Some (drop (length p) s) else None)"

text \<open>
  One attempt of the pattern at the start of \<open>s\<close>, giving the capture.  Each \<^verbatim>\<open>\s+\<close> is
  followed by something that is not white space, and the capture's \<^verbatim>\<open>*\<close> is last, so the
  greedy choice (the longest run) is the only one that can succeed and no backtracking is
  left to model.
\<close>

definition match_here :: "string \<Rightarrow> string option" where
  "match_here s =
     (case strip_prefix ''public'' s of
        None \<Rightarrow> None
      | Some r1 \<Rightarrow>
          if takeWhile is_space r1 = [] then None
          else case strip_prefix ''class'' (dropWhile is_space r1) of
            None \<Rightarrow> None
          | Some r2 \<Rightarrow>
              if takeWhile is_space r2 = [] then None
              else case dropWhile is_space r2 of
                [] \<Rightarrow> None
              | c # r3 \<Rightarrow> if is_id_start c then Some (c # takeWhile is_id_char r3) else None)"

text \<open>The pattern is not anchored: the match is tried at each position from the left, and
  the first position that matches wins.  \<open>None\<close> is JavaScript's \<^verbatim>\<open>null\<close>.\<close>

fun class_match :: "string \<Rightarrow> string option" where
  "class_match [] = match_here []"
| "class_match (c # s) =
     (case match_here (c # s) of Some n \<Rightarrow> Some n | None \<Rightarrow> class_match s)"

section \<open>Command templates\<close>

text \<open>
  \<^verbatim>\<open>String.prototype.replaceAll\<close> with a string pattern.  The replacement text is a template
  in which \<^verbatim>\<open>$$\<close>, \<^verbatim>\<open>$&\<close>, \<^verbatim>\<open>$`\<close> and \<^verbatim>\<open>$'\<close> stand for a dollar sign, the matched text, the
  text before the match and the text after it; with a string pattern there are no capture
  groups, so every other dollar sign stands for itself.
\<close>

fun get_substitution :: "string \<Rightarrow> string \<Rightarrow> string \<Rightarrow> string \<Rightarrow> string" where
  "get_substitution m pre post [] = []"
| "get_substitution m pre post [c] = [c]"
| "get_substitution m pre post (c # d # r) =
     (if c = CHR ''$'' \<and> d = CHR ''$'' then CHR ''$'' # get_substitution m pre post r
      else if c = CHR ''$'' \<and> d = CHR ''&'' then m @ get_substitution m pre post r
      else if c = CHR ''$'' \<and> d = CHR 0x60 then pre @ get_substitution m pre post r
      else if c = CHR ''$'' \<and> d = CHR 0x27 then post @ get_substitution m pre post r
      else c # get_substitution m pre post (d # r))"

text \<open>
  The scan: \<open>passed\<close> is the part of the original text already passed.  Matches are found
  from the left and do not overlap; after a match the scan goes on behind it.  An empty
  pattern matches before every character and at the end.
\<close>

function replace_from :: "string \<Rightarrow> string \<Rightarrow> string \<Rightarrow> string \<Rightarrow> string" where
  "replace_from pat val passed [] = (if pat = [] then get_substitution [] passed [] val else [])"
| "replace_from pat val passed (c # s) =
     (if pat = []
      then get_substitution [] passed (c # s) val @ c # replace_from pat val (passed @ [c]) s
      else if prefix pat (c # s)
      then get_substitution pat passed (drop (length pat) (c # s)) val
           @ replace_from pat val (passed @ pat) (drop (length pat) (c # s))
      else c # replace_from pat val (passed @ [c]) s)"
  by pat_completeness auto
termination
  by (relation "measure (\<lambda>(pat, val, passed, s). length s)") auto

definition replaceAll :: "string \<Rightarrow> string \<Rightarrow> string \<Rightarrow> string" where
  "replaceAll s pat val = replace_from pat val [] s"

text \<open>\<^verbatim>\<open>formatCommand\<close>: the entries of \<^verbatim>\<open>replacements\<close> in insertion order, each key
  wrapped in braces and replaced everywhere in the command so far.\<close>

definition formatCommand :: "string \<Rightarrow> (string \<times> string) list \<Rightarrow> string" where
  "formatCommand template replacements =
     foldl (\<lambda>cmd (key, val). replaceAll cmd (''{'' @ key @ ''}'') val) template replacements"

text \<open>\<^verbatim>\<open>String.prototype.includes\<close>.\<close>

fun includes_str :: "string \<Rightarrow> string \<Rightarrow> bool" where
  "includes_str [] pat = (pat = [])"
| "includes_str (c # s) pat = (prefix pat (c # s) \<or> includes_str s pat)"

text \<open>The invocation handed to \<^verbatim>\<open>exec\<close>: the array of parts joined by single spaces.\<close>

definition dockerCmd :: "string \<Rightarrow> string \<Rightarrow> string" where
  "dockerCmd img compileCommand =
     join '' ''
       [''docker run'',
        ''--rm'',
        ''--memory='' @ DOCKER_MEM_LIMIT,
        ''--cpus='' @ DOCKER_CPU_LIMIT,
        ''--network=none'',
        ''-v '' @ VOLUME_NAME @ '':/code'',
        ''-w /code'',
        img,
        ''sh -c '' @ [CHR 0x22] @ compileCommand @ [CHR 0x22]]"

section \<open>The workspace, the sandbox and the worker\<close>

text \<open>The shared code directory: the files present, by path, with their contents.\<close>

type_synonym fs = "string \<rightharpoonup> string"

text \<open>
  How a call of \<^verbatim>\<open>exec(dockerCmd, { timeout: 15000 })\<close> ends: the command exits with a
  status, or it is still running at the deadline and is killed, or the call fails in another
  way (the shell cannot be spawned, an output buffer overflows).  Each carries the standard
  output and the standard error captured.
\<close>

datatype exec_result =
    Exited nat string string
  | TimedOut string string
  | ExecFailure string string string

text \<open>A thrown JavaScript error: its \<^verbatim>\<open>message\<close> and, when it has one, its \<^verbatim>\<open>stderr\<close>
  property.\<close>

record js_error =
  message :: string
  stderr_prop :: "string option"

text \<open>
  The promisified \<^verbatim>\<open>exec\<close>: it resolves with both streams when the command exits with
  status 0.  Otherwise Node rejects with an error whose message is \<^verbatim>\<open>Command failed: \<close>, the
  command, a line feed and the captured standard error, and which carries the streams; a
  process killed at the deadline is reported in this same way.
\<close>

definition exec_promise :: "string \<Rightarrow> exec_result \<Rightarrow> js_error + (string \<times> string)" where
  "exec_promise cmd r =
     (case r of
        Exited status out err \<Rightarrow>
          if status = 0 then Inr (out, err)
          else Inl \<lparr>message = ''Command failed: '' @ cmd @ [CHR 0x0A] @ err, stderr_prop = Some err\<rparr>
      | TimedOut out err \<Rightarrow>
          Inl \<lparr>message = ''Command failed: '' @ cmd @ [CHR 0x0A] @ err, stderr_prop = Some err\<rparr>
      | ExecFailure m out err \<Rightarrow> Inl \<lparr>message = m, stderr_prop = Some err\<rparr>)"

text \<open>
  What the worker gets from outside: the directory \<^verbatim>\<open>CODE_DIR\<close> (the \<^verbatim>\<open>code\<close> directory
  beside the script, a normalised path), the identifier \<^verbatim>\<open>uuidv4()\<close> returns, whether
  \<^verbatim>\<open>fs.writeFile\<close> and \<^verbatim>\<open>fs.chmod\<close> reject (and with which message), what running the command
  gives and does to the shared directory, for which paths \<^verbatim>\<open>fs.stat\<close> rejects although the
  entry is there (a dangling symbolic link, a directory that may not be searched), and for
  which paths \<^verbatim>\<open>fs.unlink\<close> rejects.
\<close>

record env =
  CODE_DIR :: string
  uuidv4 :: string
  writeFile_error :: "string option"
  chmod_error :: "string option"
  exec :: "string \<Rightarrow> fs \<Rightarrow> exec_result \<times> fs"
  stat_error :: "string \<Rightarrow> string option"
  unlink_error :: "string \<Rightarrow> string option"

text \<open>\<^verbatim>\<open>path.join(CODE_DIR, name)\<close> for a file name without separators.\<close>

definition path_join :: "string \<Rightarrow> string \<Rightarrow> string" where
  "path_join dir name = dir @ ''/'' @ name"

text \<open>
  \<^verbatim>\<open>fs.stat(filePath).then(() => true).catch(() => false)\<close>: the guard of \<^verbatim>\<open>cleanupFiles\<close>.
  \<^verbatim>\<open>fs.stat\<close> rejects for a path that is not there, and where the environment says so.
\<close>

definition stat_resolves :: "env \<Rightarrow> fs \<Rightarrow> string \<Rightarrow> bool" where
  "stat_resolves e w filePath \<longleftrightarrow> w filePath \<noteq> None \<and> stat_error e filePath = None"

text \<open>
  \<^verbatim>\<open>cleanupFiles\<close>: each path for which the guard holds is unlinked; an unlink that rejects
  is logged and the loop goes on; a path for which the guard fails is skipped.  Returned are
  the directory afterwards and the paths \<^verbatim>\<open>fs.unlink\<close> was called on.
\<close>

fun cleanupFiles :: "env \<Rightarrow> string list \<Rightarrow> fs \<Rightarrow> fs \<times> string list" where
  "cleanupFiles e [] w = (w, [])"
| "cleanupFiles e (filePath # filePaths) w =
     (if stat_resolves e w filePath
      then (case unlink_error e filePath of
              None \<Rightarrow> (case cleanupFiles e filePaths (w(filePath := None)) of
                         (w', calls) \<Rightarrow> (w', filePath # calls))
            | Some m \<Rightarrow> (case cleanupFiles e filePaths w of
                          (w', calls) \<Rightarrow> (w', filePath # calls)))
      else cleanupFiles e filePaths w)"

text \<open>The names fixed by the language-specific setup.\<close>

record job_setup =
  filename :: string
  className :: string
  containerCodePath :: string
  filepath :: string
  filesToCleanup :: "string list"

text \<open>\<^verbatim>\<open>classMatch && classMatch[1] ? classMatch[1] : 'Main'\<close>.\<close>

definition java_class_name :: "string \<Rightarrow> string" where
  "java_class_name src =
     (case class_match src of
        Some n \<Rightarrow> if n \<noteq> [] then n else ''Main''
      | None \<Rightarrow> ''Main'')"

text \<open>
  The setup before the \<^verbatim>\<open>try\<close> block.  \<open>None\<close> is the \<^verbatim>\<open>TypeError\<close> of reading \<^verbatim>\<open>ext\<close> from
  an undefined \<^verbatim>\<open>langConfig\<close>; an inherited member has no \<^verbatim>\<open>ext\<close>, and the template literal
  prints \<^verbatim>\<open>undefined\<close> for it.
\<close>

definition language_setup :: "env \<Rightarrow> property \<Rightarrow> job_data \<Rightarrow> job_setup option" where
  "language_setup e langConfig d =
     (if language d = JStr ''java''
      then let cn = java_class_name (code d); fnm = cn @ ''.java'' in
        Some \<lparr>filename = fnm, className = cn, containerCodePath = ''/code/'' @ fnm,
              filepath = path_join (CODE_DIR e) fnm,
              filesToCleanup = [path_join (CODE_DIR e) fnm, path_join (CODE_DIR e) (cn @ ''.class'')]\<rparr>
      else case langConfig of
        Undefined \<Rightarrow> None
      | Inherited \<Rightarrow>
          let fnm = uuidv4 e @ ''.'' @ ''undefined'' in
          Some \<lparr>filename = fnm, className = ''Main'', containerCodePath = ''/code/'' @ fnm,
                filepath = path_join (CODE_DIR e) fnm, filesToCleanup = [path_join (CODE_DIR e) fnm]\<rparr>
      | Descriptor c \<Rightarrow>
          let fnm = uuidv4 e @ ''.'' @ ext c in
          Some \<lparr>filename = fnm, className = ''Main'', containerCodePath = ''/code/'' @ fnm,
                filepath = path_join (CODE_DIR e) fnm, filesToCleanup = [path_join (CODE_DIR e) fnm]\<rparr>)"

definition containerOutputPath :: "env \<Rightarrow> string" where
  "containerOutputPath e = ''/code/'' @ uuidv4 e @ ''.out''"

definition compileCommand :: "env \<Rightarrow> lang_config \<Rightarrow> job_setup \<Rightarrow> string" where
  "compileCommand e c st =
     formatCommand (compileCmd c)
       [(''file'', containerCodePath st),
        (''output'', containerOutputPath e),
        (''classname'', className st)]"

text \<open>The cleanup list once the compiled output of C and C++ has been added.\<close>

definition artifacts :: "env \<Rightarrow> lang_config \<Rightarrow> job_data \<Rightarrow> job_setup \<Rightarrow> string list" where
  "artifacts e c d st =
     filesToCleanup st @
     (if includes_str (compileCommand e c st) (containerOutputPath e) \<and> language d \<noteq> JStr ''java''
      then [path_join (CODE_DIR e) (uuidv4 e @ ''.out'')] else [])"

text \<open>
  What one run of the worker leaves: the way the job ends, the shared directory, the
  invocation handed to \<^verbatim>\<open>exec\<close> and how it ended if the run got that far, and the paths
  it called \<^verbatim>\<open>fs.unlink\<close> on.
\<close>

datatype outcome = Completed string | Failed string

record run =
  outcome :: outcome
  workspace :: fs
  invoked :: "(string \<times> exec_result) option"
  unlinked :: "string list"

text \<open>
  The body of the \<^verbatim>\<open>try\<close> block: the value returned or the error thrown.  An inherited
  member has no \<^verbatim>\<open>compileCmd\<close>, so \<^verbatim>\<open>formatCommand\<close> receives \<^verbatim>\<open>undefined\<close> as template and
  its first \<^verbatim>\<open>cmd.replaceAll\<close> throws a \<^verbatim>\<open>TypeError\<close>.
\<close>

definition try_block ::
  "env \<Rightarrow> fs \<Rightarrow> property \<Rightarrow> job_data \<Rightarrow> job_setup
     \<Rightarrow> (js_error + string) \<times> fs \<times> (string \<times> exec_result) option \<times> string list" where
  "try_block e w langConfig d st =
     (case writeFile_error e of
        Some m \<Rightarrow> (Inl \<lparr>message = m, stderr_prop = None\<rparr>, w, None, [])
      | None \<Rightarrow>
          let w1 = w(filepath st \<mapsto> code d) in
          case chmod_error e of
            Some m \<Rightarrow> (Inl \<lparr>message = m, stderr_prop = None\<rparr>, w1, None, [])
          | None \<Rightarrow>
              (case langConfig of
                 Descriptor c \<Rightarrow>
                   let cmd = dockerCmd (dockerImage c) (compileCommand e c st) in
                   (case exec e cmd w1 of
                      (r, w2) \<Rightarrow>
                        (case exec_promise cmd r of
                           Inl execError \<Rightarrow> (Inl execError, w2, Some (cmd, r), [])
                         | Inr (stdout, stderr) \<Rightarrow>
                             if stderr \<noteq> [] \<and>
                                (language d = JStr ''java'' \<or> language d = JStr ''c''
                                 \<or> language d = JStr ''cpp'')
                             then (Inl \<lparr>message = ''Execution potentially failed. Stderr:''
                                                   @ [CHR 0x0A] @ stderr,
                                        stderr_prop = None\<rparr>, w2, Some (cmd, r), [])
                             else (case cleanupFiles e (artifacts e c d st) w2 of
                                     (w3, calls) \<Rightarrow> (Inr stdout, w3, Some (cmd, r), calls))))
               | Inherited \<Rightarrow>
                   (Inl \<lparr>message = ''Cannot read properties of undefined (reading ''
                                   @ [CHR 0x27] @ ''replaceAll'' @ [CHR 0x27] @ '')'',
                         stderr_prop = None\<rparr>, w1, None, [])
               | Undefined \<Rightarrow>
                   (Inl \<lparr>message = ''Cannot read properties of undefined (reading ''
                                   @ [CHR 0x27] @ ''compileCmd'' @ [CHR 0x27] @ '')'',
                         stderr_prop = None\<rparr>, w1, None, [])))"

text \<open>The \<^verbatim>\<open>catch\<close> block's message: the error's message, followed by its \<^verbatim>\<open>stderr\<close> when
  that is present and not empty.\<close>

definition errorMessage :: "js_error \<Rightarrow> string" where
  "errorMessage error =
     (case stderr_prop error of
        Some s \<Rightarrow> if s \<noteq> [] then message error @ [CHR 0x0A] @ ''Stderr:'' @ [CHR 0x0A] @ s
                  else message error
      | None \<Rightarrow> message error)"

text \<open>The processor function of the worker, on the job's payload.  An error it throws,
  inside the \<^verbatim>\<open>try\<close> block or before it, fails the job with the error's message as
  reason.\<close>

definition worker :: "env \<Rightarrow> fs \<Rightarrow> job_data \<Rightarrow> run" where
  "worker e w d =
     (case lookup_language (language d) of
        None \<Rightarrow>
          \<lparr>outcome = Failed ''Cannot convert object to primitive value'',
           workspace = w, invoked = None, unlinked = []\<rparr>
      | Some langConfig \<Rightarrow>
          (case language_setup e langConfig d of
             None \<Rightarrow>
               \<lparr>outcome = Failed (''Cannot read properties of undefined (reading ''
                                   @ [CHR 0x27] @ ''ext'' @ [CHR 0x27] @ '')''),
                workspace = w, invoked = None, unlinked = []\<rparr>
           | Some st \<Rightarrow>
               (case try_block e w langConfig d st of
                  (Inr stdout, w', call, calls) \<Rightarrow>
                    \<lparr>outcome = Completed stdout, workspace = w', invoked = call, unlinked = calls\<rparr>
                | (Inl error, w', call, calls) \<Rightarrow>
                    \<lparr>outcome = Failed (errorMessage error), workspace = w', invoked = call,
                     unlinked = calls\<rparr>)))"

section \<open>Concrete runs\<close>

text \<open>An environment in which every file operation succeeds, the directory is
  \<^verbatim>\<open>/app/code\<close>, and the sandbox ends as given without touching the directory.\<close>

definition demo_env :: "exec_result \<Rightarrow> env" where
  "demo_env r =
     \<lparr>CODE_DIR = ''/app/code'', uuidv4 = ''3f2a6c1e-7b4d-4e0a-9c55-0d1e8f6a2b90'',
      writeFile_error = None, chmod_error = None,
      exec = (\<lambda>cmd w. (r, w)), stat_error = (\<lambda>p. None), unlink_error = (\<lambda>p. None)\<rparr>"

section \<open>Well-formed submissions\<close>

text \<open>The two conditions of a valid submission, as the specification words them: the code is
  a non-empty string, and the language is one of the catalog's tags.\<close>

definition code_ok :: "field \<Rightarrow> bool" where
  "code_ok f = (case f of Some (JStr s) \<Rightarrow> s \<noteq> [] | _ \<Rightarrow> False)"

definition language_in_catalog :: "field \<Rightarrow> bool" where
  "language_in_catalog f = (case f of Some (JStr t) \<Rightarrow> t \<in> set catalog_tags | _ \<Rightarrow> False)"

text \<open>A language field that is absent, falsy, a catalog tag, or a value whose key names no
  property of \<^verbatim>\<open>LANGUAGES\<close> at all, own or inherited.\<close>

definition plain_language :: "field \<Rightarrow> bool" where
  "plain_language f =
     (case f of
        None \<Rightarrow> True
      | Some l \<Rightarrow> language_in_catalog (Some l) \<or> \<not> truthy (Some l)
                  \<or> lookup_language l = Some Undefined)"

text \<open>The payload \<^verbatim>\<open>{ language, code }\<close> of a request whose two fields are present.\<close>

definition payload :: "request_body \<Rightarrow> job_data" where
  "payload b =
     \<lparr>language = (case body_language b of Some l \<Rightarrow> l | None \<Rightarrow> JNull),
      code = string_value (body_code b)\<rparr>"

text \<open>A broker that is up and has handed out no id yet, and one that is unreachable.\<close>

definition fresh_queue :: queue where
  "fresh_queue = \<lparr>reachable = True, counter = 0, jobs = []\<rparr>"

definition down_queue :: queue where
  "down_queue = \<lparr>reachable = False, counter = 0, jobs = []\<rparr>"

section \<open>Artifact sets\<close>

text \<open>The cleanup list of a job as the worker builds it: the list of the setup, extended by
  the compiled output once the command has been expanded.\<close>

definition artifact_set :: "env \<Rightarrow> job_data \<Rightarrow> string list" where
  "artifact_set e d =
     (case lookup_language (language d) of
        None \<Rightarrow> []
      | Some langConfig \<Rightarrow>
          (case language_setup e langConfig d of
             None \<Rightarrow> []
           | Some st \<Rightarrow>
               (case langConfig of
                  Descriptor c \<Rightarrow> artifacts e c d st
                | _ \<Rightarrow> filesToCleanup st)))"

text \<open>The standard error a call of \<^verbatim>\<open>exec\<close> captured.\<close>

fun captured_stderr :: "exec_result \<Rightarrow> string" where
  "captured_stderr (Exited status out err) = err"
| "captured_stderr (TimedOut out err) = err"
| "captured_stderr (ExecFailure m out err) = err"

text \<open>The shared directory as the sandbox left it: the state the cleanup starts from.  It is
  the given directory when the run never got to \<^verbatim>\<open>exec\<close>.\<close>

definition sandbox_workspace :: "env \<Rightarrow> fs \<Rightarrow> job_data \<Rightarrow> fs" where
  "sandbox_workspace e w d =
     (case lookup_language (language d) of
        Some (Descriptor c) \<Rightarrow>
          (case language_setup e (Descriptor c) d of
             Some st \<Rightarrow>
               snd (exec e (dockerCmd (dockerImage c) (compileCommand e c st))
                      (w(filepath st \<mapsto> code d)))
           | None \<Rightarrow> w)
      | _ \<Rightarrow> w)"

text \<open>
  An environment in which the program run in the sandbox replaces its source file by a
  dangling symbolic link, for which \<^verbatim>\<open>fs.stat\<close> rejects, and leaves a compiled output for
  which \<^verbatim>\<open>fs.unlink\<close> rejects; everything else is as in \<open>demo_env\<close>.
\<close>

definition leftover_env :: env where
  "leftover_env =
     \<lparr>CODE_DIR = ''/app/code'', uuidv4 = ''3f2a6c1e-7b4d-4e0a-9c55-0d1e8f6a2b90'',
      writeFile_error = None, chmod_error = None,
      exec = (\<lambda>cmd w.
        (Exited 0 ''42'' [],
         w(''/app/code/3f2a6c1e-7b4d-4e0a-9c55-0d1e8f6a2b90.c'' \<mapsto> ''-> /nowhere'',
           ''/app/code/3f2a6c1e-7b4d-4e0a-9c55-0d1e8f6a2b90.out'' \<mapsto> ''ELF''))),
      stat_error = (\<lambda>p.
        if p = ''/app/code/3f2a6c1e-7b4d-4e0a-9c55-0d1e8f6a2b90.c''
        then Some ''ENOENT: no such file or directory, stat'' else None),
      unlink_error = (\<lambda>p.
        if p = ''/app/code/3f2a6c1e-7b4d-4e0a-9c55-0d1e8f6a2b90.out''
        then Some ''EPERM: operation not permitted, unlink'' else None)\<rparr>"

section \<open>What the class-name pattern means\<close>

text \<open>A string of the form \<^verbatim>\<open>[A-Za-z_][A-Za-z0-9_]*\<close>.\<close>

fun is_identifier :: "string \<Rightarrow> bool" where
  "is_identifier [] = False"
| "is_identifier (c # cs) = (is_id_start c \<and> list_all is_id_char cs)"

text \<open>
  The pattern \<^verbatim>\<open>public\s+class\s+([A-Za-z_][A-Za-z0-9_]*)\<close> read as a description of text: it
  matches \<open>s\<close> behind the prefix \<open>pre\<close> with the group capturing \<open>n\<close> when \<open>s\<close> goes on, after
  \<open>pre\<close>, with \<^verbatim>\<open>public\<close>, white space, \<^verbatim>\<open>class\<close>, white space and \<open>n\<close>.
\<close>

definition pattern_at :: "string \<Rightarrow> string \<Rightarrow> string \<Rightarrow> bool" where
  "pattern_at s pre n \<longleftrightarrow>
     (\<exists>ws1 ws2 rest.
        s = pre @ ''public'' @ ws1 @ ''class'' @ ws2 @ n @ rest
        \<and> ws1 \<noteq> [] \<and> list_all is_space ws1
        \<and> ws2 \<noteq> [] \<and> list_all is_space ws2
        \<and> is_identifier n)"

text \<open>The first capture: that of the leftmost match, and, the group being greedy, the
  longest one there.\<close>

definition first_capture :: "string \<Rightarrow> string \<Rightarrow> bool" where
  "first_capture s n \<longleftrightarrow>
     (\<exists>pre. pattern_at s pre n
        \<and> (\<forall>pre' n'. pattern_at s pre' n' \<longrightarrow>
              length pre < length pre' \<or> (length pre' = length pre \<and> length n' \<le> length n)))"

definition no_match :: "string \<Rightarrow> bool" where
  "no_match s \<longleftrightarrow> \<not> (\<exists>pre n. pattern_at s pre n)"

text \<open>The characters a POSIX shell gives a meaning to, line feed, tab and space included.\<close>

definition shell_metacharacters :: "char list" where
  "shell_metacharacters =
     ''|&;<>()$*?[]#~=%!{} '' @ [CHR 0x60, CHR 0x5C, CHR 0x22, CHR 0x27, CHR 0x0A, CHR 0x09]"

section \<open>What replacing every occurrence means\<close>

text \<open>
  The pieces of \<open>s\<close> between the occurrences of a non-empty \<open>pat\<close>, the occurrences being
  found from the left (what \<^verbatim>\<open>s.split(pat)\<close> returns).  \<open>piece\<close> is the piece being read.
\<close>

function split_from :: "string \<Rightarrow> string \<Rightarrow> string \<Rightarrow> string list" where
  "split_from pat piece [] = [piece]"
| "split_from pat piece (c # s) =
     (if pat \<noteq> [] \<and> prefix pat (c # s)
      then piece # split_from pat [] (drop (length pat) (c # s))
      else split_from pat (piece @ [c]) s)"
  by pat_completeness auto
termination
  by (relation "measure (\<lambda>(pat, piece, s). length s)") auto

definition cut_at :: "string \<Rightarrow> string \<Rightarrow> string list" where
  "cut_at s pat = split_from pat [] s"

text \<open>
  \<open>r\<close> is \<open>s\<close> with every occurrence of \<open>pat\<close> replaced by \<open>val\<close>: \<open>s\<close> is its pieces with
  \<open>pat\<close> between them, no piece contains \<open>pat\<close>, and \<open>r\<close> is the same pieces with \<open>val\<close>
  between them.
\<close>

definition replaced_everywhere :: "string \<Rightarrow> string \<Rightarrow> string \<Rightarrow> string \<Rightarrow> bool" where
  "replaced_everywhere s pat val r \<longleftrightarrow>
     join pat (cut_at s pat) = s
     \<and> (\<forall>u\<in>set (cut_at s pat). \<not> includes_str u pat)
     \<and> r = join val (cut_at s pat)"

section \<open>Identifiers from uuidv4\<close>

text \<open>The text of a version 4 UUID as the \<^verbatim>\<open>uuid\<close> package prints it: 36 characters, each a
  lower-case hexadecimal digit or a hyphen.\<close>

definition uuid_format :: "string \<Rightarrow> bool" where
  "uuid_format u \<longleftrightarrow> length u = 36 \<and> list_all (\<lambda>c. c \<in> set ''0123456789abcdef-'') u"

section \<open>The worker's run, step by step\<close>

lemmas model_defs = worker_def try_block_def lookup_language_def LANGUAGES_def language_setup_def
  java_class_name_def compileCommand_def formatCommand_def replaceAll_def containerOutputPath_def
  dockerCmd_def exec_promise_def errorMessage_def artifacts_def path_join_def
  DOCKER_MEM_LIMIT_def DOCKER_CPU_LIMIT_def VOLUME_NAME_def match_here_def strip_prefix_def
  is_space_def is_id_start_def is_id_char_def demo_env_def Let_def

text \<open>A run that reached \<^verbatim>\<open>exec\<close> had a catalog descriptor, wrote its file, and built the
  invocation from the descriptor.\<close>

lemma worker_invoked_cases:
  assumes "invoked (worker e w d) = Some (cmd, r)"
  obtains c st w2 where
    "lookup_language (language d) = Some (Descriptor c)"
    "language_setup e (Descriptor c) d = Some st"
    "writeFile_error e = None" "chmod_error e = None"
    "cmd = dockerCmd (dockerImage c) (compileCommand e c st)"
    "exec e cmd (w(filepath st \<mapsto> code d)) = (r, w2)"
  using assms
  by (auto simp: worker_def try_block_def Let_def
      split: option.splits property.splits prod.splits sum.splits if_splits)

text \<open>The run from \<^verbatim>\<open>exec\<close> on.\<close>

lemma worker_run:
  assumes "lookup_language (language d) = Some (Descriptor c)"
    and "language_setup e (Descriptor c) d = Some st"
    and "writeFile_error e = None" and "chmod_error e = None"
    and "exec e (dockerCmd (dockerImage c) (compileCommand e c st)) (w(filepath st \<mapsto> code d))
         = (r, w2)"
  shows "worker e w d =
    (case exec_promise (dockerCmd (dockerImage c) (compileCommand e c st)) r of
       Inl execError \<Rightarrow>
         \<lparr>outcome = Failed (errorMessage execError), workspace = w2,
          invoked = Some (dockerCmd (dockerImage c) (compileCommand e c st), r), unlinked = []\<rparr>
     | Inr (stdout, stderr) \<Rightarrow>
         if stderr \<noteq> [] \<and>
            (language d = JStr ''java'' \<or> language d = JStr ''c'' \<or> language d = JStr ''cpp'')
         then \<lparr>outcome = Failed (''Execution potentially failed. Stderr:'' @ [CHR 0x0A] @ stderr),
               workspace = w2,
               invoked = Some (dockerCmd (dockerImage c) (compileCommand e c st), r),
               unlinked = []\<rparr>
         else \<lparr>outcome = Completed stdout,
               workspace = fst (cleanupFiles e (artifacts e c d st) w2),
               invoked = Some (dockerCmd (dockerImage c) (compileCommand e c st), r),
               unlinked = snd (cleanupFiles e (artifacts e c d st) w2)\<rparr>)"
  using assms
  by (auto simp: worker_def try_block_def Let_def errorMessage_def
      split: option.splits property.splits prod.splits sum.splits if_splits)

section \<open>Outcome classification\<close>

text \<open>
  C1.  When the sandbox invocation of a job exits with status 0, the outcome follows the
  standard-error rule: with an empty standard error the job completes and its result is the
  captured standard output; with a non-empty standard error and the language \<^verbatim>\<open>c\<close>,
  \<^verbatim>\<open>cpp\<close> or \<^verbatim>\<open>java\<close> the job fails, and its failure reason is exactly
  \<^verbatim>\<open>Execution potentially failed. Stderr:\<close>, a line feed, and the captured standard error;
  with a non-empty standard error and any other language (\<^verbatim>\<open>python\<close>, \<^verbatim>\<open>node\<close>) the job
  completes with the captured standard output.
\<close>

theorem exit_zero_classification:
  assumes "invoked (worker e w d) = Some (cmd, Exited 0 out err)"
  shows "outcome (worker e w d) =
    (if err = [] then Completed out
     else if language d \<in> {JStr ''c'', JStr ''cpp'', JStr ''java''}
     then Failed (''Execution potentially failed. Stderr:'' @ [CHR 0x0A] @ err)
     else Completed out)"
proof -
  from assms obtain c st w2 where
    h: "lookup_language (language d) = Some (Descriptor c)"
       "language_setup e (Descriptor c) d = Some st"
       "writeFile_error e = None" "chmod_error e = None"
       "cmd = dockerCmd (dockerImage c) (compileCommand e c st)"
       "exec e cmd (w(filepath st \<mapsto> code d)) = (Exited 0 out err, w2)"
    by (rule worker_invoked_cases)
  from h(5) h(6)
  have x: "exec e (dockerCmd (dockerImage c) (compileCommand e c st)) (w(filepath st \<mapsto> code d))
           = (Exited 0 out err, w2)"
    by simp
  show ?thesis
    by (simp add: worker_run [OF h(1) h(2) h(3) h(4) x] exec_promise_def)
qed

theorem exit_zero_classification_witness:
  "invoked (worker (demo_env (Exited 0 ''hi'' ''Note: deprecated API''))
              Map.empty \<lparr>language = JStr ''java'', code = ''public class Greeter {}''\<rparr>)
     = Some (dockerCmd ''openjdk:17'' ''javac /code/Greeter.java && java Greeter'',
             Exited 0 ''hi'' ''Note: deprecated API'')
   \<and> outcome (worker (demo_env (Exited 0 ''hi'' ''Note: deprecated API''))
              Map.empty \<lparr>language = JStr ''java'', code = ''public class Greeter {}''\<rparr>)
     = Failed (''Execution potentially failed. Stderr:'' @ [CHR 0x0A] @ ''Note: deprecated API'')"
proof -
  have h: "invoked (worker (demo_env (Exited 0 ''hi'' ''Note: deprecated API''))
              Map.empty \<lparr>language = JStr ''java'', code = ''public class Greeter {}''\<rparr>)
     = Some (dockerCmd ''openjdk:17'' ''javac /code/Greeter.java && java Greeter'',
             Exited 0 ''hi'' ''Note: deprecated API'')"
    by (simp add: model_defs)
  from exit_zero_classification [OF h] h show ?thesis by simp
qed

section \<open>The deadline\<close>

text \<open>
  C2, as the specification has it: a job whose sandbox run exceeds the deadline fails with a
  reason that begins with \<^verbatim>\<open>Timeout after N seconds\<close>.  The worker has no such text: a
  \<^verbatim>\<open>node\<close> job killed at the deadline fails with the message of the rejected \<^verbatim>\<open>exec\<close>, which
  begins with \<^verbatim>\<open>Command failed: \<close>.
\<close>

theorem timeout_reason_counterexample:
  "outcome (worker (demo_env (TimedOut [] [])) Map.empty
             \<lparr>language = JStr ''node'', code = ''while(true){}''\<rparr>)
     = Failed (''Command failed: ''
               @ dockerCmd ''node'' ''node /code/3f2a6c1e-7b4d-4e0a-9c55-0d1e8f6a2b90.js''
               @ [CHR 0x0A])
   \<and> \<not> prefix ''Timeout after 15 seconds''
         (''Command failed: ''
          @ dockerCmd ''node'' ''node /code/3f2a6c1e-7b4d-4e0a-9c55-0d1e8f6a2b90.js''
          @ [CHR 0x0A])"
  by (simp add: model_defs)

text \<open>
  C2, amended.  A job whose sandbox run is killed at the deadline ends in the failed state,
  nothing is cleaned up, and its failure reason is \<^verbatim>\<open>Command failed: \<close>, the invocation, a
  line feed and the captured standard error, followed, when that standard error is not
  empty, by a line feed, \<^verbatim>\<open>Stderr:\<close>, a line feed and the standard error again.
\<close>

theorem timeout_fails_with_exec_message:
  assumes "invoked (worker e w d) = Some (cmd, TimedOut out err)"
  shows "outcome (worker e w d) =
           Failed (''Command failed: '' @ cmd @ [CHR 0x0A] @ err
                   @ (if err = [] then [] else [CHR 0x0A] @ ''Stderr:'' @ [CHR 0x0A] @ err))
         \<and> unlinked (worker e w d) = []"
proof -
  from assms obtain c st w2 where
    h: "lookup_language (language d) = Some (Descriptor c)"
       "language_setup e (Descriptor c) d = Some st"
       "writeFile_error e = None" "chmod_error e = None"
       "cmd = dockerCmd (dockerImage c) (compileCommand e c st)"
       "exec e cmd (w(filepath st \<mapsto> code d)) = (TimedOut out err, w2)"
    by (rule worker_invoked_cases)
  from h(5) h(6)
  have x: "exec e (dockerCmd (dockerImage c) (compileCommand e c st)) (w(filepath st \<mapsto> code d))
           = (TimedOut out err, w2)"
    by simp
  show ?thesis
    by (simp add: worker_run [OF h(1) h(2) h(3) h(4) x] exec_promise_def errorMessage_def h(5))
qed

theorem timeout_fails_with_exec_message_witness:
  "invoked (worker (demo_env (TimedOut ''tick'' ''warn'')) Map.empty
             \<lparr>language = JStr ''node'', code = ''while(true){}''\<rparr>)
     = Some (dockerCmd ''node'' ''node /code/3f2a6c1e-7b4d-4e0a-9c55-0d1e8f6a2b90.js'',
             TimedOut ''tick'' ''warn'')
   \<and> outcome (worker (demo_env (TimedOut ''tick'' ''warn'')) Map.empty
             \<lparr>language = JStr ''node'', code = ''while(true){}''\<rparr>)
     = Failed (''Command failed: ''
               @ dockerCmd ''node'' ''node /code/3f2a6c1e-7b4d-4e0a-9c55-0d1e8f6a2b90.js''
               @ [CHR 0x0A] @ ''warn'' @ [CHR 0x0A] @ ''Stderr:'' @ [CHR 0x0A] @ ''warn'')"
proof -
  have h: "invoked (worker (demo_env (TimedOut ''tick'' ''warn'')) Map.empty
             \<lparr>language = JStr ''node'', code = ''while(true){}''\<rparr>)
     = Some (dockerCmd ''node'' ''node /code/3f2a6c1e-7b4d-4e0a-9c55-0d1e8f6a2b90.js'',
             TimedOut ''tick'' ''warn'')"
    by (simp add: model_defs)
  from timeout_fails_with_exec_message [OF h] h show ?thesis by simp
qed

section \<open>The sandbox invocation\<close>

text \<open>
  C8.  Every invocation the worker hands to \<^verbatim>\<open>exec\<close> is a one-shot \<^verbatim>\<open>docker run\<close> with
  \<^verbatim>\<open>--rm\<close>, a memory cap of 256 MiB (\<^verbatim>\<open>--memory=256m\<close>), half a CPU (\<^verbatim>\<open>--cpus=0.5\<close>), no
  network (\<^verbatim>\<open>--network=none\<close>), the shared volume mounted at \<^verbatim>\<open>/code\<close> with \<^verbatim>\<open>/code\<close> as
  working directory, the image of the job's catalog descriptor, and the expanded command
  of that descriptor run through a shell as \<^verbatim>\<open>sh -c "..."\<close>.
\<close>

theorem sandbox_invocation_shape:
  assumes "invoked (worker e w d) = Some (cmd, r)"
  shows "\<exists>c st. lookup_language (language d) = Some (Descriptor c)
           \<and> language_setup e (Descriptor c) d = Some st
           \<and> cmd = ''docker run --rm --memory=256m --cpus=0.5 --network=none''
                   @ '' -v code_execution_volume:/code -w /code ''
                   @ dockerImage c @ '' sh -c '' @ [CHR 0x22] @ compileCommand e c st @ [CHR 0x22]"
proof -
  from assms obtain c st w2 where
    h: "lookup_language (language d) = Some (Descriptor c)"
       "language_setup e (Descriptor c) d = Some st"
       "cmd = dockerCmd (dockerImage c) (compileCommand e c st)"
    by (rule worker_invoked_cases)
  have "dockerCmd (dockerImage c) (compileCommand e c st) =
          ''docker run --rm --memory=256m --cpus=0.5 --network=none''
          @ '' -v code_execution_volume:/code -w /code ''
          @ dockerImage c @ '' sh -c '' @ [CHR 0x22] @ compileCommand e c st @ [CHR 0x22]"
    by (simp add: dockerCmd_def DOCKER_MEM_LIMIT_def DOCKER_CPU_LIMIT_def VOLUME_NAME_def)
  with h show ?thesis by blast
qed

theorem sandbox_invocation_shape_witness:
  "invoked (worker (demo_env (Exited 0 ''42'' [])) Map.empty
             \<lparr>language = JStr ''c'', code = ''int main(){return 0;}''\<rparr>)
     = Some (dockerCmd ''gcc:13'' (''gcc /code/3f2a6c1e-7b4d-4e0a-9c55-0d1e8f6a2b90.c -o ''
               @ ''/code/3f2a6c1e-7b4d-4e0a-9c55-0d1e8f6a2b90.out && ''
               @ ''/code/3f2a6c1e-7b4d-4e0a-9c55-0d1e8f6a2b90.out''), Exited 0 ''42'' [])
   \<and> (\<exists>c st. lookup_language (JStr ''c'') = Some (Descriptor c)
         \<and> language_setup (demo_env (Exited 0 ''42'' [])) (Descriptor c)
              \<lparr>language = JStr ''c'', code = ''int main(){return 0;}''\<rparr> = Some st
         \<and> dockerCmd ''gcc:13'' (''gcc /code/3f2a6c1e-7b4d-4e0a-9c55-0d1e8f6a2b90.c -o ''
               @ ''/code/3f2a6c1e-7b4d-4e0a-9c55-0d1e8f6a2b90.out && ''
               @ ''/code/3f2a6c1e-7b4d-4e0a-9c55-0d1e8f6a2b90.out'')
             = ''docker run --rm --memory=256m --cpus=0.5 --network=none''
               @ '' -v code_execution_volume:/code -w /code ''
               @ dockerImage c @ '' sh -c '' @ [CHR 0x22]
               @ compileCommand (demo_env (Exited 0 ''42'' [])) c st @ [CHR 0x22])"
proof -
  have h: "invoked (worker (demo_env (Exited 0 ''42'' [])) Map.empty
             \<lparr>language = JStr ''c'', code = ''int main(){return 0;}''\<rparr>)
     = Some (dockerCmd ''gcc:13'' (''gcc /code/3f2a6c1e-7b4d-4e0a-9c55-0d1e8f6a2b90.c -o ''
               @ ''/code/3f2a6c1e-7b4d-4e0a-9c55-0d1e8f6a2b90.out && ''
               @ ''/code/3f2a6c1e-7b4d-4e0a-9c55-0d1e8f6a2b90.out''), Exited 0 ''42'' [])"
    by (simp add: model_defs)
  have l: "language \<lparr>language = JStr ''c'', code = ''int main(){return 0;}''\<rparr> = JStr ''c''"
    by simp
  from sandbox_invocation_shape [OF h] show ?thesis
    unfolding l using h by blast
qed

section \<open>Admission\<close>

lemma code_ok_iff: "code_ok f \<longleftrightarrow> truthy f \<and> is_string f"
  by (cases f rule: truthy.cases) (simp_all add: code_ok_def)

lemma catalog_lookup:
  "t \<in> set catalog_tags \<Longrightarrow> \<exists>c. lookup_language (JStr t) = Some (Descriptor c)"
  by (auto simp: catalog_tags_def lookup_language_def LANGUAGES_def)

lemma catalog_tag_truthy: "t \<in> set catalog_tags \<Longrightarrow> truthy (Some (JStr t))"
  by (auto simp: catalog_tags_def)

text \<open>
  C4, as the specification has it: a request whose language is not a catalog tag gets a
  client error and nothing is enqueued, and every other request with a non-empty string as
  code is enqueued and answered with 202.  Neither half holds for every request.  The
  language \<^verbatim>\<open>constructor\<close> is no catalog tag, but \<^verbatim>\<open>LANGUAGES['constructor']\<close> is the
  inherited \<^verbatim>\<open>Object\<close> function, which is truthy: the job is enqueued and the answer is
  202.  And a valid \<^verbatim>\<open>python\<close> submission is answered with 500, nothing enqueued, when the
  broker rejects the \<^verbatim>\<open>add\<close> call.
\<close>

theorem post_run_counterexample:
  "post_run fresh_queue \<lparr>body_language = Some (JStr ''constructor''), body_code = Some (JStr ''x'')\<rparr>
     = (Reply 202 (JobIdBody 1),
        \<lparr>reachable = True, counter = 1,
         jobs = [(1, \<lparr>language = JStr ''constructor'', code = ''x''\<rparr>)]\<rparr>)
   \<and> \<not> language_in_catalog (Some (JStr ''constructor''))
   \<and> post_run down_queue \<lparr>body_language = Some (JStr ''python''), body_code = Some (JStr ''print(1)'')\<rparr>
     = (Reply 500 (ErrorBody ''Failed to queue execution job''), down_queue)
   \<and> language_in_catalog (Some (JStr ''python'')) \<and> code_ok (Some (JStr ''print(1)''))"
  by (simp add: post_run_def lookup_language_def LANGUAGES_def object_prototype_keys_def
      queue_add_def fresh_queue_def down_queue_def language_in_catalog_def catalog_tags_def
      code_ok_def)

text \<open>
  C4, amended.  Take a request whose language field is absent, falsy, one of the five
  catalog tags, or a value whose key names no property of \<^verbatim>\<open>LANGUAGES\<close> at all.  If its code
  is missing, empty or not a string, or its language is missing or no catalog tag, the
  answer is 400 and nothing is enqueued.  Otherwise, when the broker accepts the job, the
  payload \<^verbatim>\<open>{ language, code }\<close> is enqueued and the answer is 202 with the id the queue
  assigned; when the broker rejects it, the answer is 500 and nothing is enqueued.
\<close>

theorem post_run_plain:
  assumes "plain_language (body_language b)"
  shows "post_run q b =
    (if \<not> code_ok (body_code b)
     then (Reply 400 (ErrorBody ''Missing or invalid code field''), q)
     else if \<not> language_in_catalog (body_language b)
     then (Reply 400 (ErrorBody ''Missing or unsupported language''), q)
     else if reachable q
     then (Reply 202 (JobIdBody (Suc (counter q))),
           q\<lparr>counter := Suc (counter q), jobs := jobs q @ [(Suc (counter q), payload b)]\<rparr>)
     else (Reply 500 (ErrorBody ''Failed to queue execution job''), q))"
proof (cases "code_ok (body_code b)")
  case False
  then show ?thesis by (auto simp: post_run_def code_ok_iff)
next
  case True
  then have c: "truthy (body_code b)" "is_string (body_code b)" by (simp_all add: code_ok_iff)
  show ?thesis
  proof (cases "body_language b")
    case None
    with True c show ?thesis by (simp add: post_run_def language_in_catalog_def)
  next
    case (Some l)
    show ?thesis
    proof (cases "language_in_catalog (Some l)")
      case True
      then obtain t where t: "l = JStr t" "t \<in> set catalog_tags"
        by (auto simp: language_in_catalog_def split: json.splits)
      from catalog_lookup [OF t(2)] obtain cfg where "lookup_language (JStr t) = Some (Descriptor cfg)" ..
      with True c Some t catalog_tag_truthy [OF t(2)] \<open>code_ok (body_code b)\<close>
      show ?thesis
        by (simp add: post_run_def queue_add_def payload_def)
    next
      case False
      with assms Some have "\<not> truthy (Some l) \<or> lookup_language l = Some Undefined"
        by (simp add: plain_language_def)
      with False c Some \<open>code_ok (body_code b)\<close> show ?thesis
        by (auto simp: post_run_def)
    qed
  qed
qed

theorem post_run_plain_witness:
  "plain_language (Some (JStr ''python''))
   \<and> post_run fresh_queue \<lparr>body_language = Some (JStr ''python''), body_code = Some (JStr ''print(1)'')\<rparr>
     = (Reply 202 (JobIdBody 1),
        \<lparr>reachable = True, counter = 1,
         jobs = [(1, \<lparr>language = JStr ''python'', code = ''print(1)''\<rparr>)]\<rparr>)
   \<and> plain_language (Some (JStr ''brainfuck''))
   \<and> post_run fresh_queue \<lparr>body_language = Some (JStr ''brainfuck''), body_code = Some (JStr ''+'')\<rparr>
     = (Reply 400 (ErrorBody ''Missing or unsupported language''), fresh_queue)"
proof -
  have p: "plain_language (body_language \<lparr>body_language = Some (JStr ''python''), body_code = Some (JStr ''print(1)'')\<rparr>)"
    by (simp add: plain_language_def language_in_catalog_def catalog_tags_def)
  have b: "plain_language (body_language \<lparr>body_language = Some (JStr ''brainfuck''), body_code = Some (JStr ''+'')\<rparr>)"
    by (simp add: plain_language_def language_in_catalog_def catalog_tags_def lookup_language_def
        LANGUAGES_def object_prototype_keys_def)
  from post_run_plain [OF p, of fresh_queue] post_run_plain [OF b, of fresh_queue] p b
  show ?thesis
    by (simp add: fresh_queue_def code_ok_def language_in_catalog_def catalog_tags_def payload_def)
qed

text \<open>
  C10.  Every job that \<^verbatim>\<open>POST /run\<close> adds to the queue has a language for which the
  worker's lookup \<^verbatim>\<open>LANGUAGES[language]\<close> succeeds and is not \<^verbatim>\<open>undefined\<close>, so the setup of
  the worker, which reads \<^verbatim>\<open>ext\<close> from the descriptor without a guard, does not throw on an
  undefined descriptor.
\<close>

theorem enqueued_language_defined:
  assumes "(jid, d) \<in> set (jobs (snd (post_run q b)))" and "(jid, d) \<notin> set (jobs q)"
  shows "\<exists>langConfig st. lookup_language (language d) = Some langConfig
           \<and> langConfig \<noteq> Undefined \<and> language_setup e langConfig d = Some st"
proof -
  from assms obtain l where l: "body_language b = Some l" "language d = l"
      "lookup_language l \<noteq> None" "lookup_language l \<noteq> Some Undefined"
    by (auto simp: post_run_def queue_add_def
        split: if_splits option.splits property.splits prod.splits)
  then obtain p where p: "lookup_language (language d) = Some p" "p \<noteq> Undefined" by auto
  then have "language_setup e p d \<noteq> None"
    by (cases p) (auto simp: language_setup_def Let_def)
  with p show ?thesis by blast
qed

theorem enqueued_language_defined_witness:
  "(1, \<lparr>language = JStr ''toString'', code = ''x''\<rparr>)
     \<in> set (jobs (snd (post_run fresh_queue
          \<lparr>body_language = Some (JStr ''toString''), body_code = Some (JStr ''x'')\<rparr>)))
   \<and> (1, \<lparr>language = JStr ''toString'', code = ''x''\<rparr>) \<notin> set (jobs fresh_queue)
   \<and> (\<exists>langConfig st. lookup_language (JStr ''toString'') = Some langConfig
         \<and> langConfig \<noteq> Undefined
         \<and> language_setup (demo_env (Exited 0 [] [])) langConfig
              \<lparr>language = JStr ''toString'', code = ''x''\<rparr> = Some st)"
proof -
  have a: "(1, \<lparr>language = JStr ''toString'', code = ''x''\<rparr>)
     \<in> set (jobs (snd (post_run fresh_queue
          \<lparr>body_language = Some (JStr ''toString''), body_code = Some (JStr ''x'')\<rparr>)))"
    by (simp add: post_run_def lookup_language_def LANGUAGES_def object_prototype_keys_def
        queue_add_def fresh_queue_def)
  have b: "(1, \<lparr>language = JStr ''toString'', code = ''x''\<rparr>) \<notin> set (jobs fresh_queue)"
    by (simp add: fresh_queue_def)
  from enqueued_language_defined [OF a b, of "demo_env (Exited 0 [] [])"] a b
  show ?thesis by simp
qed

section \<open>Cleanup\<close>

text \<open>What \<^verbatim>\<open>cleanupFiles\<close> leaves at a path: nothing, when the path is listed and neither its
  \<^verbatim>\<open>fs.stat\<close> nor its \<^verbatim>\<open>fs.unlink\<close> rejects; otherwise what was there.\<close>

lemma fst_cleanupFiles_Cons:
  "fst (cleanupFiles e (q # ps) w) =
     fst (cleanupFiles e ps
            (if stat_resolves e w q \<and> unlink_error e q = None then w(q := None) else w))"
  by (simp split: option.splits prod.splits)

lemma fst_cleanupFiles:
  "fst (cleanupFiles e ps w) p =
     (if p \<in> set ps \<and> stat_error e p = None \<and> unlink_error e p = None then None else w p)"
proof (induction ps arbitrary: w)
  case Nil
  show ?case by simp
next
  case (Cons q ps)
  show ?case
    unfolding fst_cleanupFiles_Cons Cons.IH
    by (auto simp: stat_resolves_def)
qed

lemma includes_str_prefix: "prefix p s \<Longrightarrow> includes_str s p"
  by (cases s) simp_all

lemma includes_str_append: "includes_str (a @ p @ b) p"
proof (induction a)
  case Nil
  show ?case by (simp add: includes_str_prefix)
next
  case (Cons x a)
  then show ?case by simp
qed

lemma includes_str_empty: "includes_str s []"
  by (cases s) simp_all

lemma includes_str_suffix: "includes_str (a @ p) p"
  using includes_str_append [of a p "[]"] by simp

text \<open>A failed run did not reach the cleanup; a completed run went through it.\<close>

lemma worker_failed_no_unlink:
  "outcome (worker e w d) = Failed reason \<Longrightarrow> unlinked (worker e w d) = []"
  by (auto simp: worker_def try_block_def Let_def
      split: option.splits property.splits prod.splits sum.splits if_splits)

lemma worker_completed_invoked:
  "outcome (worker e w d) = Completed out \<Longrightarrow> \<exists>cmd r. invoked (worker e w d) = Some (cmd, r)"
  by (auto simp: worker_def try_block_def Let_def
      split: option.splits property.splits prod.splits sum.splits if_splits)

lemma errorMessage_includes_stderr:
  "stderr_prop x = Some s \<Longrightarrow> includes_str (errorMessage x) s"
  by (simp add: errorMessage_def includes_str_empty
      includes_str_suffix [of "message x @ [CHR 0x0A] @ ''Stderr:'' @ [CHR 0x0A]" s, simplified])

lemma exec_promise_stderr:
  "exec_promise cmd r = Inl x \<Longrightarrow> stderr_prop x = Some (captured_stderr r)"
  by (cases r) (auto simp: exec_promise_def split: if_splits)

lemma exec_promise_ok:
  "exec_promise cmd r = Inr (out, err) \<Longrightarrow> captured_stderr r = err"
  by (cases r) (auto simp: exec_promise_def split: if_splits)

lemma worker_failed_reason_stderr:
  assumes "outcome (worker e w d) = Failed reason" and "invoked (worker e w d) = Some (cmd, r)"
  shows "includes_str reason (captured_stderr r)"
proof -
  from assms(2) obtain c st w2 where
    h: "lookup_language (language d) = Some (Descriptor c)"
       "language_setup e (Descriptor c) d = Some st"
       "writeFile_error e = None" "chmod_error e = None"
       "cmd = dockerCmd (dockerImage c) (compileCommand e c st)"
       "exec e cmd (w(filepath st \<mapsto> code d)) = (r, w2)"
    by (rule worker_invoked_cases)
  from h(5) h(6)
  have x: "exec e (dockerCmd (dockerImage c) (compileCommand e c st)) (w(filepath st \<mapsto> code d))
           = (r, w2)"
    by simp
  note run = worker_run [OF h(1) h(2) h(3) h(4) x]
  show ?thesis
  proof (cases "exec_promise (dockerCmd (dockerImage c) (compileCommand e c st)) r")
    case (Inl x)
    with assms(1) run have "reason = errorMessage x" by simp
    with exec_promise_stderr [OF Inl] show ?thesis
      by (simp add: errorMessage_includes_stderr)
  next
    case (Inr p)
    obtain out err where p: "p = (out, err)" by (cases p)
    with Inr assms(1) run
    have "reason = ''Execution potentially failed. Stderr:'' @ [CHR 0x0A] @ err"
      by (simp split: if_splits)
    moreover from Inr p have "captured_stderr r = err" by (simp add: exec_promise_ok)
    ultimately show ?thesis
      using includes_str_suffix [of "''Execution potentially failed. Stderr:'' @ [CHR 0x0A]" err]
      by simp
  qed
qed

lemma sandbox_workspace_run:
  assumes "lookup_language (language d) = Some (Descriptor c)"
    and "language_setup e (Descriptor c) d = Some st"
    and "exec e (dockerCmd (dockerImage c) (compileCommand e c st)) (w(filepath st \<mapsto> code d))
         = (r, w2)"
  shows "sandbox_workspace e w d = w2"
  using assms by (simp add: sandbox_workspace_def)

lemma worker_completed_workspace:
  assumes "outcome (worker e w d) = Completed out"
  shows "workspace (worker e w d) p =
           (if p \<in> set (artifact_set e d) \<and> stat_error e p = None \<and> unlink_error e p = None
            then None else sandbox_workspace e w d p)"
proof -
  from worker_completed_invoked [OF assms] obtain cmd r
    where "invoked (worker e w d) = Some (cmd, r)" by blast
  then obtain c st w2 where
    h: "lookup_language (language d) = Some (Descriptor c)"
       "language_setup e (Descriptor c) d = Some st"
       "writeFile_error e = None" "chmod_error e = None"
       "cmd = dockerCmd (dockerImage c) (compileCommand e c st)"
       "exec e cmd (w(filepath st \<mapsto> code d)) = (r, w2)"
    by (rule worker_invoked_cases)
  from h(5) h(6)
  have x: "exec e (dockerCmd (dockerImage c) (compileCommand e c st)) (w(filepath st \<mapsto> code d))
           = (r, w2)"
    by simp
  note run = worker_run [OF h(1) h(2) h(3) h(4) x]
  from h(1) h(2) have a: "artifact_set e d = artifacts e c d st"
    by (simp add: artifact_set_def)
  from assms run
  have "workspace (worker e w d) = fst (cleanupFiles e (artifacts e c d st) w2)"
    by (auto split: sum.splits prod.splits if_splits)
  then show ?thesis
    by (simp only: a fst_cleanupFiles sandbox_workspace_run [OF h(1) h(2) x])
qed

lemma worker_failed_workspace:
  assumes "outcome (worker e w d) = Failed reason" and "invoked (worker e w d) = Some (cmd, r)"
  shows "workspace (worker e w d) = sandbox_workspace e w d"
proof -
  from assms(2) obtain c st w2 where
    h: "lookup_language (language d) = Some (Descriptor c)"
       "language_setup e (Descriptor c) d = Some st"
       "writeFile_error e = None" "chmod_error e = None"
       "cmd = dockerCmd (dockerImage c) (compileCommand e c st)"
       "exec e cmd (w(filepath st \<mapsto> code d)) = (r, w2)"
    by (rule worker_invoked_cases)
  from h(5) h(6)
  have x: "exec e (dockerCmd (dockerImage c) (compileCommand e c st)) (w(filepath st \<mapsto> code d))
           = (r, w2)"
    by simp
  note run = worker_run [OF h(1) h(2) h(3) h(4) x]
  from assms(1) run have "workspace (worker e w d) = w2"
    by (auto split: sum.splits prod.splits if_splits)
  then show ?thesis
    by (simp only: sandbox_workspace_run [OF h(1) h(2) x])
qed

text \<open>
  C3, as the specification has it: once a job has completed, every path of its artifact set
  has been unlinked.  \<^verbatim>\<open>cleanupFiles\<close> skips a path for which \<^verbatim>\<open>fs.stat\<close> rejects, and it
  catches a rejected \<^verbatim>\<open>fs.unlink\<close>, logs it and goes on; the job completes all the same.
  Here a C job completes although both of its artifacts are still in the workspace: the
  source, now a dangling symbolic link, was skipped, and the unlink of the compiled output
  was refused.
\<close>

theorem completed_artifact_survives_counterexample:
  "outcome (worker leftover_env Map.empty
             \<lparr>language = JStr ''c'', code = ''int main(){ return 0; }''\<rparr>) = Completed ''42''
   \<and> artifact_set leftover_env \<lparr>language = JStr ''c'', code = ''int main(){ return 0; }''\<rparr>
      = [''/app/code/3f2a6c1e-7b4d-4e0a-9c55-0d1e8f6a2b90.c'', ''/app/code/3f2a6c1e-7b4d-4e0a-9c55-0d1e8f6a2b90.out'']
   \<and> unlinked (worker leftover_env Map.empty
             \<lparr>language = JStr ''c'', code = ''int main(){ return 0; }''\<rparr>)
      = [''/app/code/3f2a6c1e-7b4d-4e0a-9c55-0d1e8f6a2b90.out'']
   \<and> workspace (worker leftover_env Map.empty
             \<lparr>language = JStr ''c'', code = ''int main(){ return 0; }''\<rparr>)
        ''/app/code/3f2a6c1e-7b4d-4e0a-9c55-0d1e8f6a2b90.c'' = Some ''-> /nowhere''
   \<and> workspace (worker leftover_env Map.empty
             \<lparr>language = JStr ''c'', code = ''int main(){ return 0; }''\<rparr>)
        ''/app/code/3f2a6c1e-7b4d-4e0a-9c55-0d1e8f6a2b90.out'' = Some ''ELF''"
  by code_simp

text \<open>
  C3, amended.  The artifact set of a job is the worker's cleanup list (for the catalog
  languages: the source file, for Java also the class file, for C and C++ also the
  compiled output; see the lemmas \<open>artifact_set_java\<close> to \<open>artifact_set_node\<close> below).  If
  the job completed, a path of its artifact set for which neither \<^verbatim>\<open>fs.stat\<close> nor
  \<^verbatim>\<open>fs.unlink\<close> rejects is absent from the workspace afterwards, and every other path,
  among them a path of the artifact set that was skipped because \<^verbatim>\<open>fs.stat\<close> rejected or
  whose \<^verbatim>\<open>fs.unlink\<close> rejected, is as the sandbox left it.  If the job failed, the worker
  has called \<^verbatim>\<open>fs.unlink\<close> on no path at all; when the sandbox was run, the workspace is as
  the sandbox left it and the failure reason contains the standard error it captured.
\<close>

theorem cleanup_on_completion_only:
  "(outcome (worker e w d) = Completed out \<longrightarrow>
      (\<forall>p. workspace (worker e w d) p =
         (if p \<in> set (artifact_set e d) \<and> stat_error e p = None \<and> unlink_error e p = None
          then None else sandbox_workspace e w d p)))
   \<and> (outcome (worker e w d) = Failed reason \<longrightarrow>
      unlinked (worker e w d) = []
      \<and> (\<forall>cmd r. invoked (worker e w d) = Some (cmd, r) \<longrightarrow>
            workspace (worker e w d) = sandbox_workspace e w d
            \<and> includes_str reason (captured_stderr r)))"
proof (intro conjI impI allI)
  fix p assume "outcome (worker e w d) = Completed out"
  then show "workspace (worker e w d) p =
      (if p \<in> set (artifact_set e d) \<and> stat_error e p = None \<and> unlink_error e p = None
       then None else sandbox_workspace e w d p)"
    by (rule worker_completed_workspace)
next
  assume "outcome (worker e w d) = Failed reason"
  then show "unlinked (worker e w d) = []"
    by (rule worker_failed_no_unlink)
next
  fix cmd r
  assume "outcome (worker e w d) = Failed reason" and "invoked (worker e w d) = Some (cmd, r)"
  then show "workspace (worker e w d) = sandbox_workspace e w d"
    by (rule worker_failed_workspace)
next
  fix cmd r
  assume "outcome (worker e w d) = Failed reason" and "invoked (worker e w d) = Some (cmd, r)"
  then show "includes_str reason (captured_stderr r)"
    by (rule worker_failed_reason_stderr)
qed

theorem cleanup_on_completion_only_witness:
  "outcome (worker (demo_env (Exited 0 ''hi'' [])) Map.empty
             \<lparr>language = JStr ''java'', code = ''public class Greeter {}''\<rparr>) = Completed ''hi''
   \<and> artifact_set (demo_env (Exited 0 ''hi'' []))
        \<lparr>language = JStr ''java'', code = ''public class Greeter {}''\<rparr>
       = [''/app/code/Greeter.java'', ''/app/code/Greeter.class'']
   \<and> workspace (worker (demo_env (Exited 0 ''hi'' [])) Map.empty
             \<lparr>language = JStr ''java'', code = ''public class Greeter {}''\<rparr>)
         ''/app/code/Greeter.java'' = None
   \<and> workspace (worker (demo_env (Exited 0 ''hi'' [])) Map.empty
             \<lparr>language = JStr ''java'', code = ''public class Greeter {}''\<rparr>)
         ''/app/code/Greeter.class'' = None
   \<and> outcome (worker (demo_env (Exited 1 [] ''error: x undeclared'')) Map.empty
             \<lparr>language = JStr ''c'', code = ''int main(){ return x; }''\<rparr>)
       = Failed (''Command failed: ''
                 @ dockerCmd ''gcc:13''
                     (''gcc /code/3f2a6c1e-7b4d-4e0a-9c55-0d1e8f6a2b90.c -o ''
                      @ ''/code/3f2a6c1e-7b4d-4e0a-9c55-0d1e8f6a2b90.out && ''
                      @ ''/code/3f2a6c1e-7b4d-4e0a-9c55-0d1e8f6a2b90.out'')
                 @ [CHR 0x0A] @ ''error: x undeclared''
                 @ [CHR 0x0A] @ ''Stderr:'' @ [CHR 0x0A] @ ''error: x undeclared'')
   \<and> unlinked (worker (demo_env (Exited 1 [] ''error: x undeclared'')) Map.empty
             \<lparr>language = JStr ''c'', code = ''int main(){ return x; }''\<rparr>) = []"
proof -
  have a: "outcome (worker (demo_env (Exited 0 ''hi'' [])) Map.empty
             \<lparr>language = JStr ''java'', code = ''public class Greeter {}''\<rparr>) = Completed ''hi''"
    by (simp add: model_defs)
  have s: "artifact_set (demo_env (Exited 0 ''hi'' []))
        \<lparr>language = JStr ''java'', code = ''public class Greeter {}''\<rparr>
       = [''/app/code/Greeter.java'', ''/app/code/Greeter.class'']"
    by (simp add: model_defs artifact_set_def)
  have u: "stat_error (demo_env (Exited 0 ''hi'' [])) p = None"
          "unlink_error (demo_env (Exited 0 ''hi'' [])) p = None" for p
    by (simp_all add: demo_env_def)
  have b: "outcome (worker (demo_env (Exited 1 [] ''error: x undeclared'')) Map.empty
             \<lparr>language = JStr ''c'', code = ''int main(){ return x; }''\<rparr>)
       = Failed (''Command failed: ''
                 @ dockerCmd ''gcc:13''
                     (''gcc /code/3f2a6c1e-7b4d-4e0a-9c55-0d1e8f6a2b90.c -o ''
                      @ ''/code/3f2a6c1e-7b4d-4e0a-9c55-0d1e8f6a2b90.out && ''
                      @ ''/code/3f2a6c1e-7b4d-4e0a-9c55-0d1e8f6a2b90.out'')
                 @ [CHR 0x0A] @ ''error: x undeclared''
                 @ [CHR 0x0A] @ ''Stderr:'' @ [CHR 0x0A] @ ''error: x undeclared'')"
    by (simp add: model_defs)
  from cleanup_on_completion_only
         [of "demo_env (Exited 0 ''hi'' [])" Map.empty
             "\<lparr>language = JStr ''java'', code = ''public class Greeter {}''\<rparr>" "''hi''"] a
  have k: "workspace (worker (demo_env (Exited 0 ''hi'' [])) Map.empty
             \<lparr>language = JStr ''java'', code = ''public class Greeter {}''\<rparr>) p =
           (if p \<in> set (artifact_set (demo_env (Exited 0 ''hi'' []))
                   \<lparr>language = JStr ''java'', code = ''public class Greeter {}''\<rparr>)
            then None
            else sandbox_workspace (demo_env (Exited 0 ''hi'' [])) Map.empty
                   \<lparr>language = JStr ''java'', code = ''public class Greeter {}''\<rparr> p)" for p
    using u by simp
  have w: "workspace (worker (demo_env (Exited 0 ''hi'' [])) Map.empty
             \<lparr>language = JStr ''java'', code = ''public class Greeter {}''\<rparr>)
         ''/app/code/Greeter.java'' = None"
     "workspace (worker (demo_env (Exited 0 ''hi'' [])) Map.empty
             \<lparr>language = JStr ''java'', code = ''public class Greeter {}''\<rparr>)
         ''/app/code/Greeter.class'' = None"
    unfolding k s by simp_all
  from cleanup_on_completion_only
         [of "demo_env (Exited 1 [] ''error: x undeclared'')" Map.empty
             "\<lparr>language = JStr ''c'', code = ''int main(){ return x; }''\<rparr>" _
             "''Command failed: ''
                 @ dockerCmd ''gcc:13''
                     (''gcc /code/3f2a6c1e-7b4d-4e0a-9c55-0d1e8f6a2b90.c -o ''
                      @ ''/code/3f2a6c1e-7b4d-4e0a-9c55-0d1e8f6a2b90.out && ''
                      @ ''/code/3f2a6c1e-7b4d-4e0a-9c55-0d1e8f6a2b90.out'')
                 @ [CHR 0x0A] @ ''error: x undeclared''
                 @ [CHR 0x0A] @ ''Stderr:'' @ [CHR 0x0A] @ ''error: x undeclared''"] b
  have n: "unlinked (worker (demo_env (Exited 1 [] ''error: x undeclared'')) Map.empty
             \<lparr>language = JStr ''c'', code = ''int main(){ return x; }''\<rparr>) = []"
    by blast
  from a s w b n show ?thesis by blast
qed

section \<open>The class name and the artifact name\<close>

text \<open>The capture is an identifier, and an identifier has no shell metacharacter.\<close>

lemma id_start_not_space: "is_id_start c \<Longrightarrow> \<not> is_space c"
  by (auto simp: is_id_start_def is_space_def Let_def)

lemma id_start_id_char: "is_id_start c \<Longrightarrow> is_id_char c"
  by (simp add: is_id_char_def)

lemma c_not_space: "\<not> is_space CHR ''c''"
  by (simp add: is_space_def)

lemma Main_identifier: "is_identifier ''Main''"
  by (simp add: is_id_start_def is_id_char_def)

lemma match_here_identifier: "match_here s = Some n \<Longrightarrow> is_identifier n"
  by (auto simp: match_here_def list_all_iff dest: set_takeWhileD
      split: option.splits if_splits list.splits)

lemma class_match_identifier: "class_match s = Some n \<Longrightarrow> is_identifier n"
  by (induction s) (auto simp: match_here_identifier split: option.splits)

lemma java_class_name_identifier: "is_identifier (java_class_name src)"
  by (cases "class_match src")
     (simp_all add: java_class_name_def Main_identifier class_match_identifier
        del: is_identifier.simps)

lemma metacharacters_not_id: "list_all (\<lambda>m. \<not> is_id_char m) shell_metacharacters"
  by (simp add: shell_metacharacters_def is_id_char_def is_id_start_def)

lemma identifier_chars: "is_identifier n \<Longrightarrow> list_all is_id_char n"
  by (cases n) (simp_all add: id_start_id_char)

lemma identifier_no_metacharacter:
  "is_identifier n \<Longrightarrow> ch \<in> set n \<Longrightarrow> ch \<notin> set shell_metacharacters"
  using metacharacters_not_id identifier_chars [of n]
  by (auto simp: list_all_iff)


text \<open>One attempt of the matcher succeeds exactly where the pattern matches at the start,
  and its capture is the longest one there.\<close>

lemma takeWhile_run:
  "list_all P xs \<Longrightarrow> (ys = [] \<or> \<not> P (hd ys)) \<Longrightarrow> takeWhile P (xs @ ys) = xs"
  by (cases ys) (auto simp: list_all_iff takeWhile_append2)

lemma dropWhile_run:
  "list_all P xs \<Longrightarrow> (ys = [] \<or> \<not> P (hd ys)) \<Longrightarrow> dropWhile P (xs @ ys) = ys"
  by (cases ys) (auto simp: list_all_iff dropWhile_append2)

lemma strip_prefix_append: "strip_prefix p (p @ r) = Some r"
  by (simp add: strip_prefix_def)

lemma strip_prefix_Some: "strip_prefix p s = Some r \<Longrightarrow> s = p @ r"
  by (auto simp: strip_prefix_def prefix_def split: if_splits)

lemma match_here_complete:
  assumes "pattern_at s [] n"
  shows "\<exists>m. match_here s = Some m \<and> prefix n m"
proof -
  from assms obtain ws1 ws2 rest where
    s: "s = ''public'' @ ws1 @ ''class'' @ ws2 @ n @ rest"
    and w1: "ws1 \<noteq> []" "list_all is_space ws1"
    and w2: "ws2 \<noteq> []" "list_all is_space ws2"
    and n: "is_identifier n"
    by (auto simp: pattern_at_def)
  from n obtain c cs where cs: "n = c # cs" "is_id_start c" "list_all is_id_char cs"
    by (cases n) auto
  have sp: "strip_prefix ''public'' s = Some (ws1 @ ''class'' @ ws2 @ n @ rest)"
    unfolding s by (rule strip_prefix_append)
  have t1: "takeWhile is_space (ws1 @ ''class'' @ ws2 @ n @ rest) = ws1"
    by (rule takeWhile_run [OF w1(2)]) (simp add: c_not_space)
  have d1: "dropWhile is_space (ws1 @ ''class'' @ ws2 @ n @ rest) = ''class'' @ ws2 @ n @ rest"
    by (rule dropWhile_run [OF w1(2)]) (simp add: c_not_space)
  have sc: "strip_prefix ''class'' (''class'' @ ws2 @ n @ rest) = Some (ws2 @ n @ rest)"
    by (rule strip_prefix_append)
  have t2: "takeWhile is_space (ws2 @ n @ rest) = ws2"
    by (rule takeWhile_run [OF w2(2)]) (simp add: cs id_start_not_space)
  have d2: "dropWhile is_space (ws2 @ n @ rest) = c # cs @ rest"
    using dropWhile_run [OF w2(2), of "n @ rest"] by (simp add: cs id_start_not_space)
  have "match_here s = Some (c # takeWhile is_id_char (cs @ rest))"
    unfolding match_here_def sp
    by (simp only: option.case t1 d1 sc t2 d2 w1 w2 cs(2) list.case if_False if_True)
  moreover have "prefix n (c # takeWhile is_id_char (cs @ rest))"
    using cs(3) by (simp add: cs(1) list_all_iff takeWhile_append2)
  ultimately show ?thesis by blast
qed

lemma match_here_sound:
  assumes "match_here s = Some m"
  shows "pattern_at s [] m"
proof -
  from assms obtain r1 where r1: "strip_prefix ''public'' s = Some r1"
    by (auto simp: match_here_def split: option.splits)
  with assms have w1: "takeWhile is_space r1 \<noteq> []"
    by (auto simp: match_here_def split: option.splits if_splits)
  with assms r1 obtain r2 where r2: "strip_prefix ''class'' (dropWhile is_space r1) = Some r2"
    by (auto simp: match_here_def split: option.splits if_splits)
  with assms r1 w1 have w2: "takeWhile is_space r2 \<noteq> []"
    by (auto simp: match_here_def split: option.splits if_splits)
  with assms r1 w1 r2 obtain c r3 where
    r3: "dropWhile is_space r2 = c # r3" "is_id_start c" "m = c # takeWhile is_id_char r3"
    by (auto simp: match_here_def split: option.splits if_splits list.splits)
  have "s = ''public'' @ r1" using r1 by (rule strip_prefix_Some)
  also have "r1 = takeWhile is_space r1 @ dropWhile is_space r1" by simp
  also have "dropWhile is_space r1 = ''class'' @ r2" using r2 by (rule strip_prefix_Some)
  also have "r2 = takeWhile is_space r2 @ dropWhile is_space r2" by simp
  also have "dropWhile is_space r2 = m @ dropWhile is_id_char r3"
    by (simp add: r3)
  finally have "s = [] @ ''public'' @ takeWhile is_space r1 @ ''class'' @ takeWhile is_space r2
                  @ m @ dropWhile is_id_char r3"
    by simp
  moreover have "list_all is_space (takeWhile is_space r1)" "list_all is_space (takeWhile is_space r2)"
    by (auto simp: list_all_iff dest: set_takeWhileD)
  moreover have "is_identifier m"
    using assms by (rule match_here_identifier)
  ultimately show ?thesis
    unfolding pattern_at_def using w1 w2 by blast
qed

lemma pattern_at_shift: "pattern_at (pre @ post) pre n \<longleftrightarrow> pattern_at post [] n"
  by (simp add: pattern_at_def)

lemma pattern_at_split: "pattern_at s pre n \<Longrightarrow> \<exists>post. s = pre @ post \<and> pattern_at post [] n"
  by (auto simp: pattern_at_def)

text \<open>The scan from the left finds the first position at which an attempt succeeds.\<close>

lemma class_match_None:
  "class_match s = None \<Longrightarrow> s = pre @ post \<Longrightarrow> match_here post = None"
proof (induction s arbitrary: pre)
  case Nil
  then show ?case by simp
next
  case (Cons c s)
  show ?case
  proof (cases pre)
    case Nil
    with Cons.prems show ?thesis by (auto split: option.splits)
  next
    case (Cons p pre')
    with Cons.prems Cons.IH [of pre'] show ?thesis by (auto split: option.splits)
  qed
qed

lemma class_match_Some:
  "class_match s = Some n \<Longrightarrow>
   \<exists>pre post. s = pre @ post \<and> match_here post = Some n
     \<and> (\<forall>pre' post'. s = pre' @ post' \<longrightarrow> length pre' < length pre \<longrightarrow> match_here post' = None)"
proof (induction s)
  case Nil
  then have "[] = [] @ [] \<and> match_here [] = Some n" by simp
  then show ?case by fastforce
next
  case (Cons c s)
  show ?case
  proof (cases "match_here (c # s)")
    case (Some m)
    with Cons.prems have "c # s = [] @ (c # s) \<and> match_here (c # s) = Some n" by simp
    then show ?thesis by fastforce
  next
    case None
    with Cons.prems have "class_match s = Some n" by simp
    from Cons.IH [OF this] obtain pre post where
      p: "s = pre @ post" "match_here post = Some n"
         "\<forall>pre' post'. s = pre' @ post' \<longrightarrow> length pre' < length pre \<longrightarrow> match_here post' = None"
      by blast
    have "\<forall>pre' post'. c # s = pre' @ post' \<longrightarrow> length pre' < length (c # pre)
            \<longrightarrow> match_here post' = None"
    proof (intro allI impI)
      fix pre' post' assume a: "c # s = pre' @ post'" "length pre' < length (c # pre)"
      show "match_here post' = None"
      proof (cases pre')
        case Nil
        with a None show ?thesis by simp
      next
        case (Cons x xs)
        with a p(3) show ?thesis by simp
      qed
    qed
    with p(1) p(2) have "c # s = (c # pre) @ post \<and> match_here post = Some n
      \<and> (\<forall>pre' post'. c # s = pre' @ post' \<longrightarrow> length pre' < length (c # pre)
            \<longrightarrow> match_here post' = None)"
      by simp
    then show ?thesis by blast
  qed
qed


text \<open>So the matcher computes the first capture of the pattern, and fails exactly when the
  pattern matches nowhere.\<close>

lemma class_match_first_capture:
  assumes "class_match s = Some n"
  shows "first_capture s n"
proof -
  from class_match_Some [OF assms] obtain pre post where
    p: "s = pre @ post" "match_here post = Some n"
       "\<forall>pre' post'. s = pre' @ post' \<longrightarrow> length pre' < length pre \<longrightarrow> match_here post' = None"
    by blast
  from match_here_sound [OF p(2)] have at: "pattern_at s pre n"
    by (simp add: p(1) pattern_at_shift)
  have "length pre < length pre' \<or> (length pre' = length pre \<and> length n' \<le> length n)"
    if a: "pattern_at s pre' n'" for pre' n'
  proof -
    from pattern_at_split [OF a] obtain post' where q: "s = pre' @ post'" "pattern_at post' [] n'"
      by blast
    from match_here_complete [OF q(2)] obtain m where m: "match_here post' = Some m" "prefix n' m"
      by blast
    show ?thesis
    proof (cases "length pre' < length pre")
      case True
      with p(3) q(1) m(1) show ?thesis by simp
    next
      case False
      show ?thesis
      proof (cases "length pre' = length pre")
        case True
        with p(1) q(1) have "pre' = pre" "post' = post" by auto
        with m p(2) have "prefix n' n" by simp
        then have "length n' \<le> length n" by (rule prefix_length_le)
        with True show ?thesis by simp
      next
        case False
        with \<open>\<not> length pre' < length pre\<close> show ?thesis by simp
      qed
    qed
  qed
  with at show ?thesis unfolding first_capture_def by blast
qed

lemma class_match_None_iff: "class_match s = None \<longleftrightarrow> no_match s"
proof
  assume n: "class_match s = None"
  show "no_match s"
    unfolding no_match_def
  proof
    assume "\<exists>pre n. pattern_at s pre n"
    then obtain pre n where "pattern_at s pre n" by blast
    from pattern_at_split [OF this] obtain post where q: "s = pre @ post" "pattern_at post [] n"
      by blast
    from match_here_complete [OF q(2)] class_match_None [OF n q(1)] show False by simp
  qed
next
  assume n: "no_match s"
  show "class_match s = None"
  proof (cases "class_match s")
    case None
    then show ?thesis .
  next
    case (Some m)
    from class_match_first_capture [OF this] n show ?thesis
      by (auto simp: first_capture_def no_match_def)
  qed
qed

lemma first_capture_class_match:
  assumes "first_capture s n"
  shows "class_match s = Some n"
proof -
  from assms obtain pre where
    a: "pattern_at s pre n"
    and least: "\<And>pre' n'. pattern_at s pre' n' \<Longrightarrow>
                 length pre < length pre' \<or> (length pre' = length pre \<and> length n' \<le> length n)"
    unfolding first_capture_def by blast
  from a have "\<not> no_match s" by (auto simp: no_match_def)
  then obtain m where m: "class_match s = Some m"
    by (cases "class_match s") (simp_all add: class_match_None_iff)
  from class_match_Some [OF m] obtain pre2 post2 where
    p: "s = pre2 @ post2" "match_here post2 = Some m"
       "\<forall>pre' post'. s = pre' @ post' \<longrightarrow> length pre' < length pre2 \<longrightarrow> match_here post' = None"
    by blast
  from match_here_sound [OF p(2)] have "pattern_at s pre2 m"
    by (simp add: p(1) pattern_at_shift)
  from least [OF this] have l1: "length pre \<le> length pre2" by auto
  from pattern_at_split [OF a] obtain post where q: "s = pre @ post" "pattern_at post [] n"
    by blast
  from match_here_complete [OF q(2)] obtain k where k: "match_here post = Some k" "prefix n k"
    by blast
  from p(3) q(1) k(1) have "\<not> length pre < length pre2" by auto
  with l1 have "length pre = length pre2" by simp
  with p(1) q(1) have e: "pre = pre2" "post = post2" by auto
  with k p(2) have nm: "prefix n m" by simp
  from least [OF \<open>pattern_at s pre2 m\<close>] e have "length m \<le> length n" by simp
  with nm have "n = m"
    by (metis prefix_length_le le_antisym prefix_order.dual_order.eq_iff prefix_length_prefix
        prefix_order.order_refl)
  with m show ?thesis by simp
qed

lemma java_class_name_cases:
  "(first_capture src (java_class_name src))
   \<or> (no_match src \<and> java_class_name src = ''Main'')"
proof (cases "class_match src")
  case None
  then have "no_match src" by (simp add: class_match_None_iff)
  with None show ?thesis by (simp add: java_class_name_def)
next
  case (Some n)
  from class_match_identifier [OF Some] have "n \<noteq> []" by auto
  with Some class_match_first_capture [OF Some] show ?thesis
    by (simp add: java_class_name_def)
qed


text \<open>
  C5.  For a Java job the artifact name is the class name followed by \<^verbatim>\<open>.java\<close>, where the
  class name is the first capture of \<^verbatim>\<open>public\s+class\s+([A-Za-z_][A-Za-z0-9_]*)\<close> in the
  submitted source, or \<^verbatim>\<open>Main\<close> when the pattern matches nowhere; the setup succeeds in
  both cases.  For a job of any other language with a catalog descriptor the artifact name
  is the identifier \<^verbatim>\<open>uuidv4()\<close> returned, a dot, and the descriptor's extension.
\<close>

theorem artifact_name:
  "(language d = JStr ''java'' \<longrightarrow>
      (\<exists>st cn. language_setup e langConfig d = Some st
         \<and> filename st = cn @ ''.java'' \<and> className st = cn
         \<and> (first_capture (code d) cn \<or> (no_match (code d) \<and> cn = ''Main''))))
   \<and> (language d \<noteq> JStr ''java'' \<longrightarrow> lookup_language (language d) = Some (Descriptor c) \<longrightarrow>
      (\<exists>st. language_setup e (Descriptor c) d = Some st
         \<and> filename st = uuidv4 e @ ''.'' @ ext c))"
  using java_class_name_cases [of "code d"]
  by (auto simp: language_setup_def Let_def)

theorem artifact_name_witness:
  "(\<exists>st cn. language_setup (demo_env (Exited 0 [] [])) (LANGUAGES ''java'')
               \<lparr>language = JStr ''java'', code = ''public  class Greeter { }''\<rparr> = Some st
       \<and> filename st = cn @ ''.java'' \<and> className st = cn
       \<and> (first_capture ''public  class Greeter { }'' cn
            \<or> (no_match ''public  class Greeter { }'' \<and> cn = ''Main'')))
   \<and> map_option filename (language_setup (demo_env (Exited 0 [] [])) (LANGUAGES ''java'')
               \<lparr>language = JStr ''java'', code = ''public  class Greeter { }''\<rparr>)
       = Some ''Greeter.java''
   \<and> lookup_language (JStr ''python'')
       = Some (Descriptor \<lparr>ext = ''py'', compileCmd = ''python3 {file}'', dockerImage = ''python''\<rparr>)
   \<and> (\<exists>st. language_setup (demo_env (Exited 0 [] []))
              (Descriptor \<lparr>ext = ''py'', compileCmd = ''python3 {file}'', dockerImage = ''python''\<rparr>)
              \<lparr>language = JStr ''python'', code = ''print(1)''\<rparr> = Some st
         \<and> filename st = ''3f2a6c1e-7b4d-4e0a-9c55-0d1e8f6a2b90.py'')"
proof -
  have a: "map_option filename (language_setup (demo_env (Exited 0 [] [])) (LANGUAGES ''java'')
               \<lparr>language = JStr ''java'', code = ''public  class Greeter { }''\<rparr>)
       = Some ''Greeter.java''"
    by (simp add: model_defs)
  have b: "lookup_language (JStr ''python'')
       = Some (Descriptor \<lparr>ext = ''py'', compileCmd = ''python3 {file}'', dockerImage = ''python''\<rparr>)"
    by (simp add: lookup_language_def LANGUAGES_def)
  from artifact_name [where d = "\<lparr>language = JStr ''java'', code = ''public  class Greeter { }''\<rparr>"
                        and e = "demo_env (Exited 0 [] [])" and langConfig = "LANGUAGES ''java''"]
       artifact_name [where d = "\<lparr>language = JStr ''python'', code = ''print(1)''\<rparr>"
                        and c = "\<lparr>ext = ''py'', compileCmd = ''python3 {file}'', dockerImage = ''python''\<rparr>"
                        and e = "demo_env (Exited 0 [] [])"]
       a b
  show ?thesis by (simp add: demo_env_def)
qed

text \<open>
  C9.  For a Java job, whatever the submitted source, the string bound to \<^verbatim>\<open>{classname}\<close>
  in the expansion of the command is the capture of the pattern or the literal \<^verbatim>\<open>Main\<close>; it
  has the form \<^verbatim>\<open>[A-Za-z_][A-Za-z0-9_]*\<close> and contains no shell metacharacter.
\<close>

theorem classname_is_identifier:
  assumes "language d = JStr ''java''"
  shows "\<exists>st. language_setup e langConfig d = Some st
           \<and> (class_match (code d) = Some (className st) \<or> className st = ''Main'')
           \<and> is_identifier (className st)
           \<and> (\<forall>ch\<in>set (className st). ch \<notin> set shell_metacharacters)
           \<and> compileCommand e cfg st =
               formatCommand (compileCmd cfg)
                 [(''file'', containerCodePath st), (''output'', containerOutputPath e),
                  (''classname'', className st)]"
proof -
  have "class_match (code d) = Some (java_class_name (code d)) \<or> java_class_name (code d) = ''Main''"
    by (auto simp: java_class_name_def split: option.splits)
  with assms java_class_name_identifier [of "code d"]
       identifier_no_metacharacter [OF java_class_name_identifier [of "code d"]]
  show ?thesis
    by (simp add: language_setup_def Let_def compileCommand_def del: is_identifier.simps)
qed

theorem classname_is_identifier_witness:
  "language \<lparr>language = JStr ''java'', code = ''public class A;rm -rf / {}''\<rparr> = JStr ''java''
   \<and> (\<exists>st. language_setup (demo_env (Exited 0 [] [])) (LANGUAGES ''java'')
              \<lparr>language = JStr ''java'', code = ''public class A;rm -rf / {}''\<rparr> = Some st
         \<and> className st = ''A''
         \<and> is_identifier (className st)
         \<and> (\<forall>ch\<in>set (className st). ch \<notin> set shell_metacharacters))"
proof -
  have l: "language \<lparr>language = JStr ''java'', code = ''public class A;rm -rf / {}''\<rparr> = JStr ''java''"
    by simp
  have c: "map_option className (language_setup (demo_env (Exited 0 [] [])) (LANGUAGES ''java'')
              \<lparr>language = JStr ''java'', code = ''public class A;rm -rf / {}''\<rparr>) = Some ''A''"
    by (simp add: model_defs)
  from classname_is_identifier [OF l, of "demo_env (Exited 0 [] [])" "LANGUAGES ''java''"] c l
  show ?thesis by auto
qed

text \<open>
  C6 does not hold of the code.  Two Java jobs that both declare \<^verbatim>\<open>public class Main\<close>, run
  with different identifiers from \<^verbatim>\<open>uuidv4()\<close>, get the same file path: the Java branch
  names the file after the class and does not use the identifier.
\<close>

theorem java_artifact_collision:
  "uuidv4 (demo_env (Exited 0 [] []))
     \<noteq> uuidv4 ((demo_env (Exited 0 [] []))\<lparr>uuidv4 := ''a81bc81b-5e1d-4e5d-abff-90865d1e13b1''\<rparr>)
   \<and> map_option filepath
       (language_setup (demo_env (Exited 0 [] [])) (LANGUAGES ''java'')
          \<lparr>language = JStr ''java'', code = ''public class Main { int a; }''\<rparr>)
     = Some ''/app/code/Main.java''
   \<and> map_option filepath
       (language_setup ((demo_env (Exited 0 [] []))\<lparr>uuidv4 := ''a81bc81b-5e1d-4e5d-abff-90865d1e13b1''\<rparr>)
          (LANGUAGES ''java'')
          \<lparr>language = JStr ''java'', code = ''public class Main { int b; }''\<rparr>)
     = Some ''/app/code/Main.java''"
  by (simp add: model_defs)

text \<open>The other branch does use the identifier: two jobs that are not Java jobs, run with
  different identifiers of the UUID format, get different file names.\<close>

lemma non_java_names_differ:
  assumes "uuid_format (uuidv4 e1)" and "uuid_format (uuidv4 e2)" and "uuidv4 e1 \<noteq> uuidv4 e2"
    and "language d1 \<noteq> JStr ''java''" and "language d2 \<noteq> JStr ''java''"
    and "language_setup e1 lc1 d1 = Some st1" and "language_setup e2 lc2 d2 = Some st2"
  shows "filename st1 \<noteq> filename st2"
proof -
  from assms(4) assms(6) obtain x1 where x1: "filename st1 = uuidv4 e1 @ ''.'' @ x1"
    by (auto simp: language_setup_def Let_def split: property.splits)
  from assms(5) assms(7) obtain x2 where x2: "filename st2 = uuidv4 e2 @ ''.'' @ x2"
    by (auto simp: language_setup_def Let_def split: property.splits)
  from assms(1) assms(2) have "length (uuidv4 e1) = length (uuidv4 e2)"
    by (simp add: uuid_format_def)
  with assms(3) show ?thesis by (simp add: x1 x2)
qed

section \<open>Template expansion\<close>

text \<open>A replacement text without dollar signs stands for itself, and then \<^verbatim>\<open>replaceAll\<close> is
  cutting at every occurrence and joining with the replacement.\<close>

lemma get_substitution_plain:
  "CHR ''$'' \<notin> set val \<Longrightarrow> get_substitution m pre post val = val"
  by (induction m pre post val rule: get_substitution.induct) auto

lemma split_from_nonempty: "split_from pat piece s \<noteq> []"
  by (induction pat piece s rule: split_from.induct) auto

lemma join_Cons: "xs \<noteq> [] \<Longrightarrow> join sep (x # xs) = x @ sep @ join sep xs"
  by (cases xs) simp_all

lemma join_split_from: "join pat (split_from pat piece s) = piece @ s"
proof (induction pat piece s rule: split_from.induct)
  case (1 pat piece)
  show ?case by simp
next
  case (2 pat piece c s)
  show ?case
  proof (cases "pat \<noteq> [] \<and> prefix pat (c # s)")
    case True
    then have "c # s = pat @ drop (length pat) (c # s)"
      by (metis append_take_drop_id prefix_def append_eq_conv_conj)
    with True 2(1) show ?thesis
      by (simp add: join_Cons split_from_nonempty del: drop_Suc_Cons)
  next
    case False
    with 2(2) show ?thesis by auto
  qed
qed

lemma replace_from_split_from:
  "pat \<noteq> [] \<Longrightarrow> CHR ''$'' \<notin> set val \<Longrightarrow>
   piece @ replace_from pat val passed s = join val (split_from pat piece s)"
proof (induction pat piece s arbitrary: passed rule: split_from.induct)
  case (1 pat piece)
  then show ?case by simp
next
  case (2 pat piece c s)
  show ?case
  proof (cases "prefix pat (c # s)")
    case True
    with 2(1) [of "passed @ pat"] 2(3) 2(4) show ?thesis
      by (simp add: join_Cons split_from_nonempty get_substitution_plain del: drop_Suc_Cons)
  next
    case False
    with 2(2) [of "passed @ [c]"] 2(3) 2(4) show ?thesis by simp
  qed
qed

text \<open>No occurrence of the pattern begins inside the piece being read.\<close>

lemma includes_str_iff: "includes_str s pat \<longleftrightarrow> (\<exists>k\<le>length s. prefix pat (drop k s))"
proof (induction s)
  case Nil
  show ?case by simp
next
  case (Cons c s)
  show ?case
  proof
    assume "includes_str (c # s) pat"
    then consider "prefix pat (c # s)" | "includes_str s pat" by auto
    then show "\<exists>k\<le>length (c # s). prefix pat (drop k (c # s))"
    proof cases
      case 1
      then have "prefix pat (drop 0 (c # s))" by simp
      then show ?thesis by blast
    next
      case 2
      with Cons.IH obtain k where "k \<le> length s" "prefix pat (drop k s)" by blast
      then have "Suc k \<le> length (c # s) \<and> prefix pat (drop (Suc k) (c # s))" by simp
      then show ?thesis by blast
    qed
  next
    assume "\<exists>k\<le>length (c # s). prefix pat (drop k (c # s))"
    then obtain k where k: "k \<le> length (c # s)" "prefix pat (drop k (c # s))" by blast
    show "includes_str (c # s) pat"
    proof (cases k)
      case 0
      with k show ?thesis by simp
    next
      case (Suc j)
      with k have "j \<le> length s \<and> prefix pat (drop j s)" by simp
      with Cons.IH show ?thesis by auto
    qed
  qed
qed

lemma split_from_pieces_free:
  "pat \<noteq> [] \<Longrightarrow> (\<forall>k<length piece. \<not> prefix pat (drop k (piece @ s))) \<Longrightarrow>
   u \<in> set (split_from pat piece s) \<Longrightarrow> \<not> includes_str u pat"
proof (induction pat piece s rule: split_from.induct)
  case (1 pat piece)
  then have u: "u = piece" by simp
  show ?case
  proof
    assume "includes_str u pat"
    then obtain k where k: "k \<le> length piece" "prefix pat (drop k piece)"
      unfolding u includes_str_iff by blast
    with 1(1) have "k < length piece" by (cases "k = length piece") auto
    with 1(2) k(2) show False by simp
  qed
next
  case (2 pat piece c s)
  note ih = "2.IH" and ne = "2.prems"(1) and free = "2.prems"(2) and mem = "2.prems"(3)
  show ?case
  proof (cases "prefix pat (c # s)")
    case True
    with ne mem have "u = piece \<or> u \<in> set (split_from pat [] (drop (length pat) (c # s)))"
      by auto
    then show ?thesis
    proof
      assume u: "u = piece"
      show ?thesis
      proof
        assume "includes_str u pat"
        then obtain k where k: "k \<le> length piece" "prefix pat (drop k piece)"
          unfolding u includes_str_iff by blast
        with ne have kl: "k < length piece" by (cases "k = length piece") auto
        from k(2) have "prefix pat (drop k piece @ (c # s))"
          by (rule prefix_prefix)
        with kl have "prefix pat (drop k (piece @ c # s))" by simp
        with free kl show False by blast
      qed
    next
      assume "u \<in> set (split_from pat [] (drop (length pat) (c # s)))"
      with ih(1) [OF _ ne] True ne show ?thesis by simp
    qed
  next
    case False
    have inv: "\<forall>k<length (piece @ [c]). \<not> prefix pat (drop k ((piece @ [c]) @ s))"
    proof (intro allI impI)
      fix k assume "k < length (piece @ [c])"
      then have "k < length piece \<or> k = length piece" by fastforce
      then show "\<not> prefix pat (drop k ((piece @ [c]) @ s))"
      proof
        assume "k < length piece"
        with free show ?thesis by simp
      next
        assume "k = length piece"
        with False show ?thesis by simp
      qed
    qed
    from False mem have "u \<in> set (split_from pat (piece @ [c]) s)" by simp
    with ih(2) [OF _ ne inv] False show ?thesis by simp
  qed
qed

lemma replaceAll_replaced_everywhere:
  assumes "pat \<noteq> []" and "CHR ''$'' \<notin> set val"
  shows "replaced_everywhere s pat val (replaceAll s pat val)"
proof -
  have "join pat (cut_at s pat) = s"
    by (simp add: cut_at_def join_split_from)
  moreover have "\<forall>u\<in>set (cut_at s pat). \<not> includes_str u pat"
    using split_from_pieces_free [OF assms(1), of "[]" s] by (simp add: cut_at_def)
  moreover have "replaceAll s pat val = join val (cut_at s pat)"
    using replace_from_split_from [OF assms, of "[]" "[]" s] by (simp add: replaceAll_def cut_at_def)
  ultimately show ?thesis by (simp add: replaced_everywhere_def)
qed


text \<open>Text without an opening brace is passed over unchanged.\<close>

lemma replace_from_skip:
  "CHR ''{'' \<notin> set a \<Longrightarrow>
   replace_from (CHR ''{'' # p) v passed (a @ rest) = a @ replace_from (CHR ''{'' # p) v (passed @ a) rest"
proof (induction a arbitrary: passed)
  case Nil
  show ?case by simp
next
  case (Cons x a)
  from Cons.prems have "x \<noteq> CHR ''{''" "CHR ''{'' \<notin> set a" by auto
  with Cons.IH [of "passed @ [x]"] show ?case by simp
qed

lemma replace_from_skip_end:
  "CHR ''{'' \<notin> set a \<Longrightarrow> replace_from (CHR ''{'' # p) v passed a = a"
  using replace_from_skip [of a p v passed "[]"] by simp

lemma c_template_expansion:
  assumes "CHR ''$'' \<notin> set f \<union> set out \<union> set cn" and "CHR ''{'' \<notin> set f \<union> set out"
  shows "formatCommand ''gcc {file} -o {output} && {output}''
           [(''file'', f), (''output'', out), (''classname'', cn)]
         = ''gcc '' @ f @ '' -o '' @ out @ '' && '' @ out"
  using assms
  by (simp add: formatCommand_def replaceAll_def get_substitution_plain replace_from_skip
      replace_from_skip_end)

text \<open>With bindings free of dollar signs, \<^verbatim>\<open>formatCommand\<close> replaces every occurrence of
  \<^verbatim>\<open>{file}\<close>, then of \<^verbatim>\<open>{output}\<close>, then of \<^verbatim>\<open>{classname}\<close>.\<close>

lemma formatCommand_three:
  assumes "CHR ''$'' \<notin> set f \<union> set out \<union> set cn"
  shows "\<exists>t1 t2. replaced_everywhere t ''{file}'' f t1
           \<and> replaced_everywhere t1 ''{output}'' out t2
           \<and> replaced_everywhere t2 ''{classname}'' cn
                (formatCommand t [(''file'', f), (''output'', out), (''classname'', cn)])"
proof -
  from assms have d: "CHR ''$'' \<notin> set f" "CHR ''$'' \<notin> set out" "CHR ''$'' \<notin> set cn"
    by auto
  have "formatCommand t [(''file'', f), (''output'', out), (''classname'', cn)]
        = replaceAll (replaceAll (replaceAll t ''{file}'' f) ''{output}'' out) ''{classname}'' cn"
    by (simp add: formatCommand_def)
  moreover have "replaced_everywhere t ''{file}'' f (replaceAll t ''{file}'' f)"
    by (rule replaceAll_replaced_everywhere [OF _ d(1)]) simp
  moreover have "replaced_everywhere (replaceAll t ''{file}'' f) ''{output}'' out
                   (replaceAll (replaceAll t ''{file}'' f) ''{output}'' out)"
    by (rule replaceAll_replaced_everywhere [OF _ d(2)]) simp
  moreover have "replaced_everywhere (replaceAll (replaceAll t ''{file}'' f) ''{output}'' out)
                   ''{classname}'' cn
                   (replaceAll (replaceAll (replaceAll t ''{file}'' f) ''{output}'' out)
                      ''{classname}'' cn)"
    by (rule replaceAll_replaced_everywhere [OF _ d(3)]) simp
  ultimately show ?thesis by metis
qed

text \<open>
  C7.  Template expansion replaces every occurrence of each placeholder, not just the first.
  With bindings that contain no dollar sign (in a replacement text \<^verbatim>\<open>replaceAll\<close> reads
  \<^verbatim>\<open>$$\<close>, \<^verbatim>\<open>$&\<close> and the like as patterns), \<^verbatim>\<open>formatCommand\<close> on any template goes through
  three texts: in the template every occurrence of \<^verbatim>\<open>{file}\<close> is replaced by its binding, in
  the result every occurrence of \<^verbatim>\<open>{output}\<close>, and in that result every occurrence of
  \<^verbatim>\<open>{classname}\<close>.  In the template of C, whose bindings contain no brace either, both
  occurrences of \<^verbatim>\<open>{output}\<close> are replaced by the same binding.
\<close>

theorem formatCommand_replaces_every_occurrence:
  assumes "CHR ''$'' \<notin> set f \<union> set out \<union> set cn"
  shows "(\<exists>t1 t2. replaced_everywhere t ''{file}'' f t1
            \<and> replaced_everywhere t1 ''{output}'' out t2
            \<and> replaced_everywhere t2 ''{classname}'' cn
                 (formatCommand t [(''file'', f), (''output'', out), (''classname'', cn)]))
         \<and> (CHR ''{'' \<notin> set f \<union> set out \<longrightarrow>
              formatCommand ''gcc {file} -o {output} && {output}''
                [(''file'', f), (''output'', out), (''classname'', cn)]
              = ''gcc '' @ f @ '' -o '' @ out @ '' && '' @ out)"
  using formatCommand_three [OF assms, of t] c_template_expansion [OF assms]
  by blast

theorem formatCommand_replaces_every_occurrence_witness:
  "CHR ''$'' \<notin> set ''/code/u.c'' \<union> set ''/code/u.out'' \<union> set ''Main''
   \<and> CHR ''{'' \<notin> set ''/code/u.c'' \<union> set ''/code/u.out''
   \<and> (\<exists>t1 t2. replaced_everywhere ''gcc {file} -o {output} && {output}'' ''{file}'' ''/code/u.c'' t1
         \<and> replaced_everywhere t1 ''{output}'' ''/code/u.out'' t2
         \<and> replaced_everywhere t2 ''{classname}'' ''Main''
              (formatCommand ''gcc {file} -o {output} && {output}''
                 [(''file'', ''/code/u.c''), (''output'', ''/code/u.out''), (''classname'', ''Main'')]))
   \<and> formatCommand ''gcc {file} -o {output} && {output}''
        [(''file'', ''/code/u.c''), (''output'', ''/code/u.out''), (''classname'', ''Main'')]
      = ''gcc /code/u.c -o /code/u.out && /code/u.out''"
proof -
  have h: "CHR ''$'' \<notin> set ''/code/u.c'' \<union> set ''/code/u.out'' \<union> set ''Main''"
    by simp
  have b: "CHR ''{'' \<notin> set ''/code/u.c'' \<union> set ''/code/u.out''"
    by simp
  note t = formatCommand_replaces_every_occurrence
             [OF h, of "''gcc {file} -o {output} && {output}''"]
  from t b have v: "formatCommand ''gcc {file} -o {output} && {output}''
        [(''file'', ''/code/u.c''), (''output'', ''/code/u.out''), (''classname'', ''Main'')]
      = ''gcc /code/u.c -o /code/u.out && /code/u.out''"
    by simp
  from t h b v show ?thesis by blast
qed

section \<open>The worker's bindings and the artifact sets of the catalog\<close>

text \<open>
  The bindings the worker passes to \<^verbatim>\<open>formatCommand\<close> are paths under \<^verbatim>\<open>/code\<close> built from
  the identifier of \<^verbatim>\<open>uuidv4()\<close> or from the class name, and the class name itself.  With an
  identifier of the UUID format they contain no dollar sign and no brace, so the expansion
  of each catalog template can be written out, and with it the cleanup list of a job of
  each catalog language: the source file; for Java also the class file; for C and C++ also
  the compiled output.
\<close>

lemma uuid_chars_plain:
  "c \<in> set ''0123456789abcdef-'' \<Longrightarrow> c \<noteq> CHR ''$'' \<and> c \<noteq> CHR ''{''"
  by auto

lemma uuid_plain: "uuid_format u \<Longrightarrow> CHR ''$'' \<notin> set u \<and> CHR ''{'' \<notin> set u"
  unfolding uuid_format_def list_all_iff using uuid_chars_plain by blast

lemma identifier_plain:
  assumes "is_identifier n"
  shows "CHR ''$'' \<notin> set n \<and> CHR ''{'' \<notin> set n"
proof -
  have "CHR ''$'' \<in> set shell_metacharacters" "CHR ''{'' \<in> set shell_metacharacters"
    by (simp_all add: shell_metacharacters_def)
  with identifier_no_metacharacter [OF assms] show ?thesis by blast
qed

lemma includes_str_short: "length s < length pat \<Longrightarrow> \<not> includes_str s pat"
proof (induction s)
  case Nil
  then show ?case by auto
next
  case (Cons c s)
  then show ?case by (auto dest: prefix_length_le)
qed

lemma prefix_too_long: "length b < length a \<Longrightarrow> \<not> prefix a b"
  by (auto dest: prefix_length_le)

lemma python_no_output:
  "\<not> includes_str (''python3 /code/'' @ u @ ''.py'') (''/code/'' @ u @ ''.out'')"
  by (simp add: includes_str_short prefix_too_long)

lemma node_no_output:
  "\<not> includes_str (''node /code/'' @ u @ ''.js'') (''/code/'' @ u @ ''.out'')"
  by (simp add: includes_str_short prefix_too_long)

lemma cpp_template_expansion:
  assumes "CHR ''$'' \<notin> set f \<union> set out \<union> set cn" and "CHR ''{'' \<notin> set f \<union> set out"
  shows "formatCommand ''g++ {file} -o {output} && {output}''
           [(''file'', f), (''output'', out), (''classname'', cn)]
         = ''g++ '' @ f @ '' -o '' @ out @ '' && '' @ out"
  using assms
  by (simp add: formatCommand_def replaceAll_def get_substitution_plain replace_from_skip
      replace_from_skip_end)

lemma python_template_expansion:
  assumes "CHR ''$'' \<notin> set f \<union> set out \<union> set cn" and "CHR ''{'' \<notin> set f"
  shows "formatCommand ''python3 {file}'' [(''file'', f), (''output'', out), (''classname'', cn)]
         = ''python3 '' @ f"
  using assms
  by (simp add: formatCommand_def replaceAll_def get_substitution_plain replace_from_skip
      replace_from_skip_end)

lemma node_template_expansion:
  assumes "CHR ''$'' \<notin> set f \<union> set out \<union> set cn" and "CHR ''{'' \<notin> set f"
  shows "formatCommand ''node {file}'' [(''file'', f), (''output'', out), (''classname'', cn)]
         = ''node '' @ f"
  using assms
  by (simp add: formatCommand_def replaceAll_def get_substitution_plain replace_from_skip
      replace_from_skip_end)

lemma java_template_expansion:
  assumes "CHR ''$'' \<notin> set f \<union> set out \<union> set cn" and "CHR ''{'' \<notin> set f \<union> set cn"
  shows "formatCommand ''javac {file} && java {classname}''
           [(''file'', f), (''output'', out), (''classname'', cn)]
         = ''javac '' @ f @ '' && java '' @ cn"
  using assms
  by (simp add: formatCommand_def replaceAll_def get_substitution_plain replace_from_skip
      replace_from_skip_end)

lemma Main_plain: "CHR ''$'' \<notin> set ''Main'' \<and> CHR ''{'' \<notin> set ''Main''"
  by simp

lemma artifact_set_java:
  assumes "language d = JStr ''java''"
  shows "artifact_set e d =
           [path_join (CODE_DIR e) (java_class_name (code d) @ ''.java''),
            path_join (CODE_DIR e) (java_class_name (code d) @ ''.class'')]"
  using assms
  by (simp add: artifact_set_def lookup_language_def LANGUAGES_def language_setup_def Let_def
      artifacts_def)

lemma includes_str_last: "includes_str (a @ b @ c @ d @ e @ p) p"
  using includes_str_suffix [of "a @ b @ c @ d @ e" p] by simp

lemma artifacts_with_output:
  assumes "compileCommand e c st = a @ f @ b @ containerOutputPath e @ g @ containerOutputPath e"
    and "language d \<noteq> JStr ''java''"
  shows "artifacts e c d st = filesToCleanup st @ [path_join (CODE_DIR e) (uuidv4 e @ ''.out'')]"
  using assms(2) includes_str_last [of a f b "containerOutputPath e" g "containerOutputPath e"]
  by (simp add: artifacts_def assms(1))

lemma output_path_plain:
  "uuid_format (uuidv4 e) \<Longrightarrow>
   CHR ''$'' \<notin> set (containerOutputPath e) \<and> CHR ''{'' \<notin> set (containerOutputPath e)"
  using uuid_plain [of "uuidv4 e"] by (simp add: containerOutputPath_def)

lemma artifact_set_c:
  assumes "language d = JStr ''c''" and "uuid_format (uuidv4 e)"
  shows "artifact_set e d =
           [path_join (CODE_DIR e) (uuidv4 e @ ''.c''), path_join (CODE_DIR e) (uuidv4 e @ ''.out'')]"
proof -
  define cfg where "cfg = \<lparr>ext = ''c'', compileCmd = ''gcc {file} -o {output} && {output}'',
                           dockerImage = ''gcc:13''\<rparr>"
  from assms(1) have l: "lookup_language (language d) = Some (Descriptor cfg)"
    by (simp add: lookup_language_def LANGUAGES_def cfg_def)
  from assms(1) obtain st where st: "language_setup e (Descriptor cfg) d = Some st"
    "containerCodePath st = ''/code/'' @ uuidv4 e @ ''.c''" "className st = ''Main''"
    "filesToCleanup st = [path_join (CODE_DIR e) (uuidv4 e @ ''.c'')]"
    by (simp add: language_setup_def Let_def cfg_def)
  from uuid_plain [OF assms(2)] output_path_plain [OF assms(2)]
  have p: "CHR ''$'' \<notin> set (containerCodePath st) \<union> set (containerOutputPath e) \<union> set (className st)"
          "CHR ''{'' \<notin> set (containerCodePath st) \<union> set (containerOutputPath e)"
    by (simp_all add: st)
  have "compileCommand e cfg st =
          ''gcc '' @ containerCodePath st @ '' -o '' @ containerOutputPath e @ '' && ''
          @ containerOutputPath e"
    unfolding compileCommand_def cfg_def lang_config.simps by (rule c_template_expansion [OF p])
  then have "artifacts e cfg d st
             = filesToCleanup st @ [path_join (CODE_DIR e) (uuidv4 e @ ''.out'')]"
    by (rule artifacts_with_output) (simp add: assms(1))
  with l st show ?thesis by (simp add: artifact_set_def)
qed


lemma artifact_set_cpp:
  assumes "language d = JStr ''cpp''" and "uuid_format (uuidv4 e)"
  shows "artifact_set e d =
           [path_join (CODE_DIR e) (uuidv4 e @ ''.cpp''), path_join (CODE_DIR e) (uuidv4 e @ ''.out'')]"
proof -
  define cfg where "cfg = \<lparr>ext = ''cpp'', compileCmd = ''g++ {file} -o {output} && {output}'',
                           dockerImage = ''gcc:13''\<rparr>"
  from assms(1) have l: "lookup_language (language d) = Some (Descriptor cfg)"
    by (simp add: lookup_language_def LANGUAGES_def cfg_def)
  from assms(1) obtain st where st: "language_setup e (Descriptor cfg) d = Some st"
    "containerCodePath st = ''/code/'' @ uuidv4 e @ ''.cpp''" "className st = ''Main''"
    "filesToCleanup st = [path_join (CODE_DIR e) (uuidv4 e @ ''.cpp'')]"
    by (simp add: language_setup_def Let_def cfg_def)
  from uuid_plain [OF assms(2)] output_path_plain [OF assms(2)]
  have p: "CHR ''$'' \<notin> set (containerCodePath st) \<union> set (containerOutputPath e) \<union> set (className st)"
          "CHR ''{'' \<notin> set (containerCodePath st) \<union> set (containerOutputPath e)"
    by (simp_all add: st)
  have "compileCommand e cfg st =
          ''g++ '' @ containerCodePath st @ '' -o '' @ containerOutputPath e @ '' && ''
          @ containerOutputPath e"
    unfolding compileCommand_def cfg_def lang_config.simps by (rule cpp_template_expansion [OF p])
  then have "artifacts e cfg d st
             = filesToCleanup st @ [path_join (CODE_DIR e) (uuidv4 e @ ''.out'')]"
    by (rule artifacts_with_output) (simp add: assms(1))
  with l st show ?thesis by (simp add: artifact_set_def)
qed

lemma artifact_set_python:
  assumes "language d = JStr ''python''" and "uuid_format (uuidv4 e)"
  shows "artifact_set e d = [path_join (CODE_DIR e) (uuidv4 e @ ''.py'')]"
proof -
  define cfg where "cfg = \<lparr>ext = ''py'', compileCmd = ''python3 {file}'', dockerImage = ''python''\<rparr>"
  from assms(1) have l: "lookup_language (language d) = Some (Descriptor cfg)"
    by (simp add: lookup_language_def LANGUAGES_def cfg_def)
  from assms(1) obtain st where st: "language_setup e (Descriptor cfg) d = Some st"
    "containerCodePath st = ''/code/'' @ uuidv4 e @ ''.py''" "className st = ''Main''"
    "filesToCleanup st = [path_join (CODE_DIR e) (uuidv4 e @ ''.py'')]"
    by (simp add: language_setup_def Let_def cfg_def)
  from uuid_plain [OF assms(2)] output_path_plain [OF assms(2)]
  have p: "CHR ''$'' \<notin> set (containerCodePath st) \<union> set (containerOutputPath e) \<union> set (className st)"
          "CHR ''{'' \<notin> set (containerCodePath st)"
    by (simp_all add: st)
  have cc: "compileCommand e cfg st = ''python3 '' @ containerCodePath st"
    unfolding compileCommand_def cfg_def lang_config.simps by (rule python_template_expansion [OF p])
  have "artifacts e cfg d st = filesToCleanup st"
    using python_no_output [of "uuidv4 e"]
    by (simp add: artifacts_def cc st(2) containerOutputPath_def)
  with l st show ?thesis by (simp add: artifact_set_def)
qed

lemma artifact_set_node:
  assumes "language d = JStr ''node''" and "uuid_format (uuidv4 e)"
  shows "artifact_set e d = [path_join (CODE_DIR e) (uuidv4 e @ ''.js'')]"
proof -
  define cfg where "cfg = \<lparr>ext = ''js'', compileCmd = ''node {file}'', dockerImage = ''node''\<rparr>"
  from assms(1) have l: "lookup_language (language d) = Some (Descriptor cfg)"
    by (simp add: lookup_language_def LANGUAGES_def cfg_def)
  from assms(1) obtain st where st: "language_setup e (Descriptor cfg) d = Some st"
    "containerCodePath st = ''/code/'' @ uuidv4 e @ ''.js''" "className st = ''Main''"
    "filesToCleanup st = [path_join (CODE_DIR e) (uuidv4 e @ ''.js'')]"
    by (simp add: language_setup_def Let_def cfg_def)
  from uuid_plain [OF assms(2)] output_path_plain [OF assms(2)]
  have p: "CHR ''$'' \<notin> set (containerCodePath st) \<union> set (containerOutputPath e) \<union> set (className st)"
          "CHR ''{'' \<notin> set (containerCodePath st)"
    by (simp_all add: st)
  have cc: "compileCommand e cfg st = ''node '' @ containerCodePath st"
    unfolding compileCommand_def cfg_def lang_config.simps by (rule node_template_expansion [OF p])
  have "artifacts e cfg d st = filesToCleanup st"
    using node_no_output [of "uuidv4 e"]
    by (simp add: artifacts_def cc st(2) containerOutputPath_def)
  with l st show ?thesis by (simp add: artifact_set_def)
qed

lemma catalog_ext:
  "lookup_language l = Some (Descriptor c) \<Longrightarrow> ext c \<in> {''c'', ''cpp'', ''py'', ''java'', ''js''}"
  by (auto simp: lookup_language_def LANGUAGES_def split: option.splits if_splits)

lemma worker_bindings_plain:
  assumes "lookup_language (language d) = Some langConfig"
    and "language_setup e langConfig d = Some st" and "uuid_format (uuidv4 e)"
  shows "CHR ''$'' \<notin> set (containerCodePath st) \<union> set (containerOutputPath e) \<union> set (className st)"
proof -
  note u = uuid_plain [OF assms(3)] and o = output_path_plain [OF assms(3)]
  show ?thesis
  proof (cases "language d = JStr ''java''")
    case True
    with assms(2) have "containerCodePath st = ''/code/'' @ java_class_name (code d) @ ''.java''"
      "className st = java_class_name (code d)"
      by (auto simp: language_setup_def Let_def)
    with identifier_plain [OF java_class_name_identifier [of "code d"]] o show ?thesis by simp
  next
    case False
    show ?thesis
    proof (cases langConfig)
      case Undefined
      with False assms(2) show ?thesis by (simp add: language_setup_def)
    next
      case Inherited
      with False assms(2) have "containerCodePath st = ''/code/'' @ uuidv4 e @ ''.undefined''"
        "className st = ''Main''"
        by (auto simp: language_setup_def Let_def)
      with u o show ?thesis by simp
    next
      case (Descriptor c)
      with False assms(2) have f: "containerCodePath st = ''/code/'' @ uuidv4 e @ ''.'' @ ext c"
        "className st = ''Main''"
        by (auto simp: language_setup_def Let_def)
      from catalog_ext assms(1) Descriptor have "CHR ''$'' \<notin> set (ext c)" by fastforce
      with f u o show ?thesis by simp
    qed
  qed
qed


lemma compileCommand_replaces_every_occurrence:
  assumes "lookup_language (language d) = Some langConfig"
    and "language_setup e langConfig d = Some st" and "uuid_format (uuidv4 e)"
  shows "\<exists>t1 t2. replaced_everywhere (compileCmd c) ''{file}'' (containerCodePath st) t1
           \<and> replaced_everywhere t1 ''{output}'' (containerOutputPath e) t2
           \<and> replaced_everywhere t2 ''{classname}'' (className st) (compileCommand e c st)"
  using formatCommand_three [OF worker_bindings_plain [OF assms]]
  by (simp add: compileCommand_def)

end
